theory Spec2Isabelle
  imports Main "HOL-Library.Word"
begin

unbundle bit_operations_syntax

section \<open>Machine integers, byte strings and errors\<close>

type_synonym u8 = "8 word"
type_synonym u32 = "32 word"
type_synonym u64 = "64 word"
type_synonym bytes = "u8 list"

abbreviation UINT32_MAX :: u32 where
  "UINT32_MAX \<equiv> 0xFFFFFFFF"

text \<open>
  The ways in which the C code of \<^verbatim>\<open>RouterModule.c\<close> can leave defined behaviour:
  following a NULL pointer, dividing by zero, and reading past the end of a
  length-prefixed string.
\<close>

datatype error = NullDereference | DivisionByZero | OutOfBoundsRead

section \<open>Rolling average of response times\<close>

text \<open>
  Modelled from the spec: \<^verbatim>\<open>util/AverageRoller.c\<close> is not among the sources. Section 4.1
  of the specification gives the contract: \<^verbatim>\<open>update(sample)\<close> returns the current mean,
  \<^verbatim>\<open>get()\<close> returns the latest mean, and the mean is taken over a sliding window of
  \<^verbatim>\<open>windowSeconds\<close> seconds, one bucket per second, older buckets dropping out.
  A bucket is a second together with the sum and the number of the samples of that second.
\<close>

record AverageRoller =
  windowSeconds :: nat
  buckets :: "(nat \<times> int \<times> int) list"
  average :: u32

definition AverageRoller_new :: "nat \<Rightarrow> AverageRoller" where
  "AverageRoller_new window = \<lparr> windowSeconds = window, buckets = [], average = 0 \<rparr>"

definition AverageRoller_getAverage :: "AverageRoller \<Rightarrow> u32" where
  "AverageRoller_getAverage roller = average roller"

definition AverageRoller_update :: "nat \<Rightarrow> AverageRoller \<Rightarrow> u32 \<Rightarrow> AverageRoller \<times> u32" where
  "AverageRoller_update nowSeconds roller newEntry =
     (let live = filter (\<lambda>(s, _, _). nowSeconds < s + windowSeconds roller) (buckets roller);
          bs = live @ [(nowSeconds, uint newEntry, 1)];
          total = sum_list (map (\<lambda>(_, s, _). s) bs);
          entryCount = sum_list (map (\<lambda>(_, _, c). c) bs);
          mean = word_of_int (total div entryCount)
      in (roller \<lparr> buckets := bs, average := mean \<rparr>, mean))"

section \<open>Response time ratio and distance helped\<close>

text \<open>
  The value returned by \<^verbatim>\<open>calculateResponseTimeRatio\<close> once the mean is known:
  \<^verbatim>\<open>(responseTime > 2 * gmrt) ? UINT32_MAX : ((UINT32_MAX / 2) / gmrt) * responseTime\<close>
  in 32-bit unsigned arithmetic. The comparison is evaluated first, so the division is
  reached with a zero mean only when the response time is zero as well.
\<close>

definition responseTimeRatio :: "u32 \<Rightarrow> u32 \<Rightarrow> error + u32" where
  "responseTimeRatio gmrt responseTime =
     (if responseTime > 2 * gmrt then Inr UINT32_MAX
      else if gmrt = 0 then Inl DivisionByZero
      else Inr (((UINT32_MAX div 2) div gmrt) * responseTime))"

text \<open>
  \<^verbatim>\<open>calculateResponseTimeRatio\<close>: the roller is updated with the response time first, and
  the ratio is taken against the mean that the update returns.
\<close>

definition calculateResponseTimeRatio ::
  "nat \<Rightarrow> AverageRoller \<Rightarrow> u32 \<Rightarrow> AverageRoller \<times> (error + u32)" where
  "calculateResponseTimeRatio nowSeconds gmrtRoller responseTime =
     (let (roller', gmrt) = AverageRoller_update nowSeconds gmrtRoller responseTime
      in (roller', responseTimeRatio gmrt responseTime))"

definition calculateDistance :: "u32 \<Rightarrow> u32 \<Rightarrow> u32 \<Rightarrow> u32" where
  "calculateDistance nodeIdPrefix targetPrefix firstResponseIdPrefix =
     (let at = nodeIdPrefix XOR targetPrefix;
          bt = firstResponseIdPrefix XOR targetPrefix
      in if bt > at then 0
         else let ab = nodeIdPrefix XOR firstResponseIdPrefix
              in if at < ab then ab - bt else ab)"

section \<open>Bencoded messages\<close>

text \<open>
  Modelled from the spec: \<^verbatim>\<open>libbenc\<close> is not among the sources; the router only looks up
  and puts strings and dictionaries. A dictionary is an association list from keys to
  values, a lookup through a NULL dictionary or for a value of the other kind gives NULL
  (\<open>None\<close>), and a put replaces the value of a key that is already there.
\<close>

datatype benc = BencString bytes | BencDict "(bytes \<times> benc) list"

type_synonym Dict = "(bytes \<times> benc) list"

definition benc_lookupString :: "Dict option \<Rightarrow> bytes \<Rightarrow> bytes option" where
  "benc_lookupString dictionary key =
     (case dictionary of
        None \<Rightarrow> None
      | Some d \<Rightarrow> (case map_of d key of Some (BencString s) \<Rightarrow> Some s | _ \<Rightarrow> None))"

definition benc_lookupDictionary :: "Dict option \<Rightarrow> bytes \<Rightarrow> Dict option" where
  "benc_lookupDictionary dictionary key =
     (case dictionary of
        None \<Rightarrow> None
      | Some d \<Rightarrow> (case map_of d key of Some (BencDict e) \<Rightarrow> Some e | _ \<Rightarrow> None))"

fun benc_put :: "Dict \<Rightarrow> bytes \<Rightarrow> benc \<Rightarrow> Dict" where
  "benc_put [] key v = [(key, v)]"
| "benc_put ((k, w) # d) key v = (if k = key then (k, v) # d else (k, w) # benc_put d key v)"

definition benc_putString :: "Dict \<Rightarrow> bytes \<Rightarrow> bytes \<Rightarrow> Dict" where
  "benc_putString dictionary key s = benc_put dictionary key (BencString s)"

definition benc_putDictionary :: "Dict \<Rightarrow> bytes \<Rightarrow> Dict \<Rightarrow> Dict" where
  "benc_putDictionary dictionary key d = benc_put dictionary key (BencDict d)"

definition benc_stringEquals :: "bytes option \<Rightarrow> bytes \<Rightarrow> bool" where
  "benc_stringEquals a b = (a = Some b)"

text \<open>
  Modelled from the spec: \<^verbatim>\<open>dht/DHTConstants.h\<close> is not among the sources. The keys are
  those of the wire format of section 6: \<^verbatim>\<open>t\<close>, \<^verbatim>\<open>y\<close>, \<^verbatim>\<open>q\<close>, \<^verbatim>\<open>a\<close>, \<^verbatim>\<open>r\<close>,
  \<^verbatim>\<open>id\<close>, \<^verbatim>\<open>target\<close>, \<^verbatim>\<open>info_hash\<close> and \<^verbatim>\<open>nodes\<close>, written as ASCII bytes.
\<close>

definition DHTConstants_transactionId :: bytes where
  "DHTConstants_transactionId = [0x74]"

definition DHTConstants_messageType :: bytes where
  "DHTConstants_messageType = [0x79]"

definition DHTConstants_query :: bytes where
  "DHTConstants_query = [0x71]"

definition DHTConstants_arguments :: bytes where
  "DHTConstants_arguments = [0x61]"

definition DHTConstants_reply :: bytes where
  "DHTConstants_reply = [0x72]"

definition DHTConstants_myId :: bytes where
  "DHTConstants_myId = [0x69, 0x64]"

definition DHTConstants_targetId :: bytes where
  "DHTConstants_targetId = [0x74, 0x61, 0x72, 0x67, 0x65, 0x74]"

definition DHTConstants_infoHash :: bytes where
  "DHTConstants_infoHash = [0x69, 0x6E, 0x66, 0x6F, 0x5F, 0x68, 0x61, 0x73, 0x68]"

definition DHTConstants_nodes :: bytes where
  "DHTConstants_nodes = [0x6E, 0x6F, 0x64, 0x65, 0x73]"

text \<open>
  \<^verbatim>\<open>struct DHTMessage\<close>, as far as the router reads it: the dictionary, the address of the
  peer and, for one of our replies, the query it answers.
\<close>

datatype DHTMessage =
  DHTMessage (asDict: Dict) (peerAddress: bytes) (replyTo: "DHTMessage option")

section \<open>Identifiers and distances\<close>

text \<open>
  Modelled from the spec: \<^verbatim>\<open>AddrPrefix_get\<close> is not among the sources. Section 3: the
  32-bit prefix of an identifier is its first four bytes in network order, read as an
  unsigned integer.
\<close>

definition AddrPrefix_get :: "bytes \<Rightarrow> u32" where
  "AddrPrefix_get addr = foldl (\<lambda>acc b. push_bit 8 acc OR ucast b) 0 (take 4 addr)"

text \<open>
  The XOR distance of two identifiers of 20 bytes: the bytes of the one XOR the bytes of
  the other, read in network order as a number of 160 bits.
\<close>

definition xorDistance :: "bytes \<Rightarrow> bytes \<Rightarrow> 160 word" where
  "xorDistance a b = foldl (\<lambda>acc w. push_bit 8 acc OR ucast w) 0 (map2 (XOR) a b)"

section \<open>Node store\<close>

text \<open>
  Modelled from the spec: \<^verbatim>\<open>dht/dhtcore/NodeStore.c\<close> is not among the sources. Sections 3
  and 4.2: the store holds at most \<open>capacity\<close> records and never two with the same
  identifier; \<^verbatim>\<open>add\<close> updates the address of a known identifier and keeps its reach,
  inserts an unknown one with reach 0 and, when full, replaces the record of lowest reach
  (among equals, the one farthest from our own identifier); \<^verbatim>\<open>closest_k\<close> returns up
  to \<open>k\<close> records of smallest distance/reach on the 32-bit prefixes, ties broken by
  smaller distance and then by larger reach. The ratios are compared exactly, by cross
  multiplication, so that among records of reach 0 the order is that of the distance.

  Only records whose identifier is strictly closer to the target than our own are
  returned. The comment at the head of \<^verbatim>\<open>RouterModule.c\<close> has the router never send a node
  whose id is not closer to the target than its own, \<^verbatim>\<open>RouterModule_beginSearch\<close> is
  documented to return -1, which it does on an empty result, when there are no nodes closer
  to the destination than us, and section 4.6 has \<^verbatim>\<open>closest_k\<close> return nothing when we are
  the closest; \<^verbatim>\<open>handleQuery\<close> and \<^verbatim>\<open>RouterModule_beginSearch\<close> use the result as it
  is, so the comparison with our own identifier is made by the store.
\<close>

record Node =
  address :: bytes
  networkAddress :: bytes
  reach :: u32

record NodeStore =
  thisNodeAddress :: bytes
  capacity :: nat
  nodes :: "Node list"

definition NodeStore_new :: "bytes \<Rightarrow> nat \<Rightarrow> NodeStore" where
  "NodeStore_new myAddress storeSize =
     \<lparr> thisNodeAddress = myAddress, capacity = storeSize, nodes = [] \<rparr>"

definition NodeStore_getNode :: "NodeStore \<Rightarrow> bytes \<Rightarrow> Node option" where
  "NodeStore_getNode store addr = find (\<lambda>n. address n = addr) (nodes store)"

definition evictsBefore :: "bytes \<Rightarrow> Node \<Rightarrow> Node \<Rightarrow> bool" where
  "evictsBefore own a b =
     (reach a < reach b \<or>
      (reach a = reach b \<and> xorDistance own (address b) < xorDistance own (address a)))"

fun victimIndex :: "bytes \<Rightarrow> Node list \<Rightarrow> nat" where
  "victimIndex own [] = 0"
| "victimIndex own [n] = 0"
| "victimIndex own (n # m # ns) =
     (let i = victimIndex own (m # ns)
      in if evictsBefore own ((m # ns) ! i) n then Suc i else 0)"

definition NodeStore_addNode :: "NodeStore \<Rightarrow> bytes \<Rightarrow> bytes \<Rightarrow> NodeStore" where
  "NodeStore_addNode store addr netAddr =
     (if \<exists>n \<in> set (nodes store). address n = addr
      then store \<lparr> nodes := map (\<lambda>n. if address n = addr then n \<lparr> networkAddress := netAddr \<rparr> else n)
                                 (nodes store) \<rparr>
      else let new = \<lparr> address = addr, networkAddress = netAddr, reach = 0 \<rparr>
           in if length (nodes store) < capacity store
              then store \<lparr> nodes := nodes store @ [new] \<rparr>
              else store \<lparr> nodes := (nodes store)
                                       [victimIndex (thisNodeAddress store) (nodes store) := new] \<rparr>)"

definition ranksBefore :: "bytes \<Rightarrow> Node \<Rightarrow> Node \<Rightarrow> bool" where
  "ranksBefore target a b =
     (let da = uint (AddrPrefix_get (address a) XOR AddrPrefix_get target);
          db = uint (AddrPrefix_get (address b) XOR AddrPrefix_get target);
          ra = uint (reach a);
          rb = uint (reach b)
      in da * rb < db * ra \<or>
         (da * rb = db * ra \<and> (da < db \<or> (da = db \<and> rb < ra))))"

fun insertRanked :: "bytes \<Rightarrow> Node \<Rightarrow> Node list \<Rightarrow> Node list" where
  "insertRanked target n [] = [n]"
| "insertRanked target n (m # ms) =
     (if ranksBefore target n m then n # m # ms else m # insertRanked target n ms)"

definition closerThanUs :: "NodeStore \<Rightarrow> bytes \<Rightarrow> Node \<Rightarrow> bool" where
  "closerThanUs store target n =
     (xorDistance (address n) target < xorDistance (thisNodeAddress store) target)"

definition NodeStore_getClosestNodes :: "NodeStore \<Rightarrow> bytes \<Rightarrow> nat \<Rightarrow> Node list" where
  "NodeStore_getClosestNodes store target count =
     take count (foldr (insertRanked target) (filter (closerThanUs store target) (nodes store)) [])"

section \<open>Search store\<close>

text \<open>
  Modelled from the spec: \<^verbatim>\<open>dht/dhtcore/SearchStore.c\<close> is not among the sources. Sections
  3 and 4.3: a search has a target, the nodes contacted or to be contacted, and the context
  of its driver; a node of a search has an identifier, a network address, the node whose
  reply introduced it (none for a seed), the time its request was sent, the delay until
  its reply (0 until then), and the flags for a reply received and for eviction. A pointer
  to a search is its index in the store, a pointer to a node is the index of the search
  with the index of the node in it, and the transaction id of a node is these two indices
  in two bytes each. Section 4.3 lists the operations, and the router calls no others;
  none of them is described as recording a reply (\<^verbatim>\<open>get_node\<close> resolves a transaction
  id and nothing more), so none of the operations below does: in this model the delay of a
  node stays 0 and its flag for a reply stays unset after its reply has been handled.
\<close>

record SearchStore_Node =
  searchNode_address :: bytes
  searchNode_networkAddress :: bytes
  searchNode_parent :: "nat option"
  searchNode_timeOfRequest :: "u64 option"
  searchNode_delayUntilReply :: u32
  searchNode_replied :: bool
  searchNode_evicted :: bool

record SearchStore_TraceElement =
  trace_address :: bytes
  trace_delayUntilReply :: u32

text \<open>
  \<^verbatim>\<open>struct SearchCallbackContext\<close> of the router: the callback of the caller (it returns
  0 to go on and anything else to stop), the target, the timer, the search and the
  request type.
\<close>

record SearchCallbackContext =
  resultCallback :: "DHTMessage \<Rightarrow> int"
  scc_target :: bytes
  scc_timeout :: nat
  scc_search :: nat
  scc_requestType :: bytes

record SearchStore_Search =
  searchTarget :: bytes
  searchNodes :: "SearchStore_Node list"
  searchContext :: "SearchCallbackContext option"

type_synonym SearchStore = "SearchStore_Search list"

definition SearchStore_newSearch :: "bytes \<Rightarrow> SearchStore \<Rightarrow> SearchStore \<times> nat" where
  "SearchStore_newSearch target store =
     (store @ [\<lparr> searchTarget = target, searchNodes = [], searchContext = None \<rparr>], length store)"

definition evictIfOlder :: "u64 \<Rightarrow> SearchStore_Node \<Rightarrow> SearchStore_Node" where
  "evictIfOlder olderThan n =
     (case searchNode_timeOfRequest n of
        None \<Rightarrow> n
      | Some t \<Rightarrow> if t < olderThan \<and> \<not> searchNode_replied n
                  then n \<lparr> searchNode_evicted := True \<rparr> else n)"

definition SearchStore_addNodeToSearch ::
  "nat option \<Rightarrow> bytes \<Rightarrow> bytes \<Rightarrow> u64 \<Rightarrow> SearchStore_Search \<Rightarrow> SearchStore_Search" where
  "SearchStore_addNodeToSearch parent addr netAddr olderThan search =
     search \<lparr> searchNodes :=
       map (evictIfOlder olderThan) (searchNodes search) @
       [\<lparr> searchNode_address = addr, searchNode_networkAddress = netAddr,
          searchNode_parent = parent, searchNode_timeOfRequest = None,
          searchNode_delayUntilReply = 0, searchNode_replied = False,
          searchNode_evicted = False \<rparr>] \<rparr>"

definition unvisited :: "SearchStore_Node \<Rightarrow> bool" where
  "unvisited n = (searchNode_timeOfRequest n = None \<and> \<not> searchNode_evicted n)"

fun nextNodeFrom ::
  "bytes \<Rightarrow> nat \<Rightarrow> SearchStore_Node list \<Rightarrow> (nat \<times> 160 word) option" where
  "nextNodeFrom target i [] = None"
| "nextNodeFrom target i (n # ns) =
     (if unvisited n
      then (case nextNodeFrom target (Suc i) ns of
              None \<Rightarrow> Some (i, xorDistance (searchNode_address n) target)
            | Some (j, d) \<Rightarrow>
                if d < xorDistance (searchNode_address n) target then Some (j, d)
                else Some (i, xorDistance (searchNode_address n) target))
      else nextNodeFrom target (Suc i) ns)"

definition SearchStore_getNextNode :: "SearchStore_Search \<Rightarrow> nat option" where
  "SearchStore_getNextNode search =
     map_option fst (nextNodeFrom (searchTarget search) 0 (searchNodes search))"

definition SearchStore_tidForNode :: "nat \<times> nat \<Rightarrow> bytes" where
  "SearchStore_tidForNode node =
     [word_of_nat (fst node div 256), word_of_nat (fst node),
      word_of_nat (snd node div 256), word_of_nat (snd node)]"

definition SearchStore_getNode :: "bytes option \<Rightarrow> SearchStore \<Rightarrow> (nat \<times> nat) option" where
  "SearchStore_getNode tid store =
     (case tid of
        Some [a, b, c, d] \<Rightarrow>
          (let s = unat a * 256 + unat b; n = unat c * 256 + unat d
           in if s < length store \<and> n < length (searchNodes (store ! s)) then Some (s, n)
              else None)
      | _ \<Rightarrow> None)"

definition SearchStore_requestSent :: "nat \<times> nat \<Rightarrow> u64 \<Rightarrow> SearchStore \<Rightarrow> SearchStore" where
  "SearchStore_requestSent node now store =
     (let search = store ! fst node;
          n = searchNodes search ! snd node
      in store [fst node := search \<lparr> searchNodes :=
                  (searchNodes search) [snd node := n \<lparr> searchNode_timeOfRequest := Some now \<rparr>] \<rparr>])"

function traceFrom :: "SearchStore_Node list \<Rightarrow> nat \<Rightarrow> SearchStore_TraceElement list" where
  "traceFrom ns i =
     (if i < length ns
      then \<lparr> trace_address = searchNode_address (ns ! i),
             trace_delayUntilReply = searchNode_delayUntilReply (ns ! i) \<rparr> #
           (case searchNode_parent (ns ! i) of
              None \<Rightarrow> []
            | Some p \<Rightarrow> if p < i then traceFrom ns p else [])
      else [])"
  by pat_completeness auto
termination
  by (relation "measure snd") auto

declare traceFrom.simps [simp del]

definition SearchStore_backTrace :: "nat \<times> nat \<Rightarrow> SearchStore \<Rightarrow> SearchStore_TraceElement list" where
  "SearchStore_backTrace node store = traceFrom (searchNodes (store ! fst node)) (snd node)"

section \<open>The router module\<close>

text \<open>
  Modelled from the spec: \<^verbatim>\<open>util/Timeout.c\<close> is not among the sources. A timer is the
  search whose step it runs and the delay it is armed with.
\<close>

record Timeout =
  timeout_search :: nat
  timeout_milliseconds :: u64

text \<open>
  \<^verbatim>\<open>struct RouterModule\<close>. The registry is the list of the messages handed to it for
  sending, the event base is the list of its timers, and the clock read by
  \<^verbatim>\<open>Time_currentTimeMilliseconds\<close> is a field of its own.
\<close>

record RouterModule =
  myAddress :: bytes
  gmrtRoller :: AverageRoller
  searchStore :: SearchStore
  nodeStore :: NodeStore
  registry :: "DHTMessage list"
  eventBase :: "Timeout list"
  currentTimeMilliseconds :: u64

definition GMRT_SECONDS :: nat where
  "GMRT_SECONDS = 256"

definition GMRT_INITAL_MILLISECONDS :: u32 where
  "GMRT_INITAL_MILLISECONDS = 100"

definition NODE_STORE_SIZE :: nat where
  "NODE_STORE_SIZE = 16384"

definition RETURN_SIZE :: nat where
  "RETURN_SIZE = 8"

text \<open>
  Modelled from the spec: \<^verbatim>\<open>RouterModule_K\<close> is declared in \<^verbatim>\<open>RouterModule.h\<close>, which is
  not among the sources. Section 6: \<^verbatim>\<open>RETURN_SIZE = K = 8\<close>.
\<close>

definition RouterModule_K :: nat where
  "RouterModule_K = 8"

definition RouterModule_register :: "bytes \<Rightarrow> u64 \<Rightarrow> RouterModule" where
  "RouterModule_register addr now =
     \<lparr> myAddress = addr,
       gmrtRoller = fst (AverageRoller_update (unat now div 1000) (AverageRoller_new GMRT_SECONDS)
                           GMRT_INITAL_MILLISECONDS),
       searchStore = [],
       nodeStore = NodeStore_new addr NODE_STORE_SIZE,
       registry = [],
       eventBase = [],
       currentTimeMilliseconds = now \<rparr>"

definition evictUnrepliedIfOlderThan :: "RouterModule \<Rightarrow> u64" where
  "evictUnrepliedIfOlderThan module =
     currentTimeMilliseconds module - ucast (AverageRoller_getAverage (gmrtRoller module)) * 2"

definition tryNextNodeAfter :: "RouterModule \<Rightarrow> u64" where
  "tryNextNodeAfter module = ucast (AverageRoller_getAverage (gmrtRoller module)) * 2"

text \<open>
  Modelled from the spec: \<^verbatim>\<open>DHTModules_handleOutgoing\<close> is not among the sources; the
  registry collects the outgoing messages.
\<close>

definition DHTModules_handleOutgoing :: "DHTMessage \<Rightarrow> RouterModule \<Rightarrow> RouterModule" where
  "DHTModules_handleOutgoing message module = module \<lparr> registry := registry module @ [message] \<rparr>"

definition sendRequest ::
  "bytes \<Rightarrow> bytes \<Rightarrow> bytes \<Rightarrow> bytes option \<Rightarrow> bytes \<Rightarrow> RouterModule \<Rightarrow> RouterModule" where
  "sendRequest netAddr queryType transactionId target targetKey module =
     (let d0 = benc_putString [] DHTConstants_transactionId transactionId;
          d1 = benc_putString d0 DHTConstants_messageType DHTConstants_query;
          args0 = benc_putString [] DHTConstants_myId (myAddress module);
          args = (case target of
                    None \<Rightarrow> args0
                  | Some t \<Rightarrow> benc_putString args0 targetKey t);
          d2 = benc_putDictionary d1 DHTConstants_arguments args;
          d3 = benc_putString d2 DHTConstants_query queryType
      in DHTModules_handleOutgoing (DHTMessage d3 (take 6 netAddr) None) module)"

definition Timeout_setTimeout :: "nat \<Rightarrow> u64 \<Rightarrow> RouterModule \<Rightarrow> RouterModule \<times> nat" where
  "Timeout_setTimeout search ms module =
     (module \<lparr> eventBase := eventBase module @
                  [\<lparr> timeout_search = search, timeout_milliseconds = ms \<rparr>] \<rparr>,
      length (eventBase module))"

definition Timeout_resetTimeout :: "nat \<Rightarrow> u64 \<Rightarrow> RouterModule \<Rightarrow> RouterModule" where
  "Timeout_resetTimeout t ms module =
     module \<lparr> eventBase := (eventBase module)
                 [t := (eventBase module ! t) \<lparr> timeout_milliseconds := ms \<rparr>] \<rparr>"

section \<open>Search steps and incoming replies\<close>

text \<open>
  \<^verbatim>\<open>searchStep\<close>: the next node of the search is taken and its network address is read
  at once, with no test for NULL.
\<close>

definition searchStep :: "SearchCallbackContext \<Rightarrow> RouterModule \<Rightarrow> error + RouterModule" where
  "searchStep context module =
     (let search = searchStore module ! scc_search context
      in case SearchStore_getNextNode search of
           None \<Rightarrow> Inl NullDereference
         | Some n \<Rightarrow>
             (let nextSearchNode = searchNodes search ! n;
                  m1 = sendRequest (searchNode_networkAddress nextSearchNode)
                         (scc_requestType context)
                         (SearchStore_tidForNode (scc_search context, n))
                         (Some (scc_target context))
                         DHTConstants_infoHash
                         module;
                  m2 = m1 \<lparr> searchStore :=
                              SearchStore_requestSent (scc_search context, n)
                                (currentTimeMilliseconds m1) (searchStore m1) \<rparr>
              in Inr (Timeout_resetTimeout (scc_timeout context) (tryNextNodeAfter m2) m2)))"

text \<open>
  \<^verbatim>\<open>cleanup\<close>. In the source the statements inside \<^verbatim>\<open>if (parentNode != NULL)\<close> are not
  well-formed C (a lone \<^verbatim>\<open>milliseconds\<close>, two declarations of \<^verbatim>\<open>time\<close>, and a
  \<^verbatim>\<open>parentNode->reach +=\<close> with no right-hand side), so they have no translation; they are
  the parameter \<open>body\<close>, given the module, the prefix of the target, the parent and the
  child of the pair and the parent's record in the node store. Everything around them is
  as in the source: the node for the target is added under \<open>lastNode\<close>, the trace is taken
  from \<open>lastNode\<close>, and the loop runs over the adjacent pairs of that trace, leaving
  out a parent that the node store no longer holds.
\<close>

type_synonym reachUpdate =
  "RouterModule \<Rightarrow> u32 \<Rightarrow> SearchStore_TraceElement \<Rightarrow> SearchStore_TraceElement \<Rightarrow> Node
     \<Rightarrow> error + RouterModule"

fun cleanupLoop ::
  "reachUpdate \<Rightarrow> u32 \<Rightarrow> SearchStore_TraceElement \<Rightarrow> SearchStore_TraceElement list
     \<Rightarrow> RouterModule \<Rightarrow> error + RouterModule" where
  "cleanupLoop body targetPrefix child [] module = Inr module"
| "cleanupLoop body targetPrefix child (parent # rest) module =
     (case NodeStore_getNode (nodeStore module) (trace_address parent) of
        None \<Rightarrow> cleanupLoop body targetPrefix parent rest module
      | Some parentNode \<Rightarrow>
          (case body module targetPrefix parent child parentNode of
             Inl e \<Rightarrow> Inl e
           | Inr module' \<Rightarrow> cleanupLoop body targetPrefix parent rest module'))"

definition cleanup ::
  "reachUpdate \<Rightarrow> nat \<times> nat \<Rightarrow> bytes \<Rightarrow> RouterModule \<Rightarrow> error + RouterModule" where
  "cleanup body lastNode targetAddress module =
     (let search = searchStore module ! fst lastNode;
          search' = SearchStore_addNodeToSearch (Some (snd lastNode)) targetAddress
                      [0x55, 0x6E, 0x75, 0x73, 0x65, 0x64]
                      (evictUnrepliedIfOlderThan module) search;
          module1 = module \<lparr> searchStore := (searchStore module) [fst lastNode := search'] \<rparr>
      in case SearchStore_backTrace lastNode (searchStore module1) of
           [] \<Rightarrow> Inl NullDereference
         | child # rest \<Rightarrow> cleanupLoop body (AddrPrefix_get targetAddress) child rest module1)"

text \<open>
  The loop of \<^verbatim>\<open>handleReply\<close> over the records of 26 bytes: each goes to the node store
  and to the search, under the node that replied.
\<close>

function addReplyNodes :: "nat \<times> nat \<Rightarrow> u64 \<Rightarrow> bytes \<Rightarrow> RouterModule \<Rightarrow> RouterModule" where
  "addReplyNodes parent evictTime bs module =
     (if bs = [] then module
      else let m1 = module \<lparr> nodeStore :=
                       NodeStore_addNode (nodeStore module) (take 20 bs) (take 6 (drop 20 bs)) \<rparr>;
               search = SearchStore_addNodeToSearch (Some (snd parent)) (take 20 bs)
                          (take 6 (drop 20 bs)) evictTime (searchStore m1 ! fst parent);
               m2 = m1 \<lparr> searchStore := (searchStore m1) [fst parent := search] \<rparr>
           in addReplyNodes parent evictTime (drop 26 bs) m2)"
  by pat_completeness auto
termination
  by (relation "measure (\<lambda>(parent, evictTime, bs, module). length bs)") auto

declare addReplyNodes.simps [simp del]

definition handleReply ::
  "reachUpdate \<Rightarrow> DHTMessage \<Rightarrow> RouterModule \<Rightarrow> error + (RouterModule \<times> int)" where
  "handleReply body message module =
     (case benc_lookupDictionary (Some (asDict message)) DHTConstants_reply of
        None \<Rightarrow> Inr (module, 0)
      | Some arguments \<Rightarrow>
          (let nodes = benc_lookupString (Some arguments) DHTConstants_nodes
           in if (case nodes of None \<Rightarrow> True | Some ns \<Rightarrow> length ns mod 26 \<noteq> 0)
              then (case benc_lookupString (Some arguments) DHTConstants_myId of
                      None \<Rightarrow> Inl NullDereference
                    | Some addr \<Rightarrow>
                        if length addr < 20 then Inl OutOfBoundsRead
                        else Inr (module \<lparr> nodeStore :=
                                     NodeStore_addNode (nodeStore module) (take 20 addr)
                                       (take 6 (peerAddress message)) \<rparr>, - 1))
              else
                (let tid = benc_lookupString (Some (asDict message)) DHTConstants_transactionId
                 in case SearchStore_getNode tid (searchStore module) of
                      None \<Rightarrow> Inr (module, - 1)
                    | Some parent \<Rightarrow>
                        (let evictTime = evictUnrepliedIfOlderThan module;
                             m1 = addReplyNodes parent evictTime (case nodes of None \<Rightarrow> [] | Some ns \<Rightarrow> ns)
                                    module
                         in case searchContext (searchStore m1 ! fst parent) of
                              None \<Rightarrow> Inl NullDereference
                            | Some scc \<Rightarrow>
                                if resultCallback scc message = 0
                                then (case searchStep scc m1 of
                                        Inl e \<Rightarrow> Inl e
                                      | Inr m2 \<Rightarrow> Inr (m2, 0))
                                else (case cleanup body parent (scc_target scc) m1 of
                                        Inl e \<Rightarrow> Inl e
                                      | Inr m2 \<Rightarrow> Inr (m2, 0))))))"

definition handleIncoming ::
  "reachUpdate \<Rightarrow> DHTMessage \<Rightarrow> RouterModule \<Rightarrow> error + (RouterModule \<times> int)" where
  "handleIncoming body message module =
     (let messageType = benc_lookupString (Some (asDict message)) DHTConstants_messageType
      in if benc_stringEquals messageType DHTConstants_reply
         then handleReply body message module
         else Inr (module, 0))"

section \<open>Outgoing messages\<close>

text \<open>
  \<^verbatim>\<open>handleQuery\<close> returns the arguments of the reply, which the source changes in place,
  together with the module. The list of nodes is put under \<^verbatim>\<open>nodes\<close> whenever it is
  not empty; the source makes no other test.
\<close>

definition serialiseNodes :: "Node list \<Rightarrow> bytes" where
  "serialiseNodes nodeList = concat (map (\<lambda>n. take 20 (address n) @ take 6 (networkAddress n)) nodeList)"

definition handleQuery ::
  "DHTMessage \<Rightarrow> Dict \<Rightarrow> RouterModule \<Rightarrow> error + (Dict \<times> RouterModule \<times> int)" where
  "handleQuery message replyArgs module =
     (case replyTo message of
        None \<Rightarrow> Inl NullDereference
      | Some query \<Rightarrow>
          (let queryArgs = benc_lookupDictionary (Some (asDict query)) DHTConstants_arguments
           in case benc_lookupString queryArgs DHTConstants_myId of
                None \<Rightarrow> Inr (replyArgs, module, 0)
              | Some addr \<Rightarrow>
                  if length addr \<noteq> 20 then Inr (replyArgs, module, 0)
                  else
                    (let m1 = module \<lparr> nodeStore :=
                                 NodeStore_addNode (nodeStore module) addr
                                   (take 6 (peerAddress query)) \<rparr>;
                         target = (case benc_lookupString queryArgs DHTConstants_targetId of
                                     None \<Rightarrow> benc_lookupString queryArgs DHTConstants_infoHash
                                   | Some t \<Rightarrow> Some t)
                     in case target of
                          None \<Rightarrow> Inr (replyArgs, m1, 0)
                        | Some t \<Rightarrow>
                            if length t \<noteq> 20 then Inr (replyArgs, m1, 0)
                            else
                              (let nodeList = NodeStore_getClosestNodes (nodeStore m1) t RouterModule_K
                               in if 0 < length nodeList
                                  then Inr (benc_putString replyArgs DHTConstants_nodes
                                              (serialiseNodes nodeList), m1, 0)
                                  else Inr (replyArgs, m1, 0)))))"

definition handleOutgoing ::
  "DHTMessage \<Rightarrow> RouterModule \<Rightarrow> error + (DHTMessage \<times> RouterModule \<times> int)" where
  "handleOutgoing message module =
     (let argumentsKey = (if replyTo message \<noteq> None then DHTConstants_reply
                          else DHTConstants_arguments);
          arguments0 = (case benc_lookupDictionary (Some (asDict message)) argumentsKey of
                          None \<Rightarrow> []
                        | Some a \<Rightarrow> a);
          arguments = benc_putString arguments0 DHTConstants_myId (myAddress module)
      in if replyTo message \<noteq> None
         then (case handleQuery message arguments module of
                 Inl e \<Rightarrow> Inl e
               | Inr (arguments', module', r) \<Rightarrow>
                   Inr (DHTMessage (benc_putDictionary (asDict message) argumentsKey arguments')
                          (peerAddress message) (replyTo message), module', r))
         else Inr (DHTMessage (benc_putDictionary (asDict message) argumentsKey arguments)
                     (peerAddress message) (replyTo message), module, 0))"

section \<open>Starting a search\<close>

fun addSeeds :: "u64 \<Rightarrow> Node list \<Rightarrow> SearchStore_Search \<Rightarrow> SearchStore_Search" where
  "addSeeds evictTime [] search = search"
| "addSeeds evictTime (n # ns) search =
     addSeeds evictTime ns
       (SearchStore_addNodeToSearch None (address n) (networkAddress n) evictTime search)"

definition RouterModule_beginSearch ::
  "bytes \<Rightarrow> bytes \<Rightarrow> (DHTMessage \<Rightarrow> int) \<Rightarrow> RouterModule \<Rightarrow> error + (RouterModule \<times> int)" where
  "RouterModule_beginSearch requestType target callback module =
     (let (store1, search) = SearchStore_newSearch target (searchStore module);
          m1 = module \<lparr> searchStore := store1 \<rparr>;
          nodeList = NodeStore_getClosestNodes (nodeStore m1) target RETURN_SIZE
      in if length nodeList = 0 then Inr (m1, - 1)
         else
           (let seeded = addSeeds (evictUnrepliedIfOlderThan m1) nodeList (searchStore m1 ! search);
                m2 = m1 \<lparr> searchStore := (searchStore m1) [search := seeded] \<rparr>
            in case SearchStore_getNextNode seeded of
                 None \<Rightarrow> Inl NullDereference
               | Some n \<Rightarrow>
                   (let firstSearchNode = searchNodes seeded ! n;
                        m3 = sendRequest (searchNode_networkAddress firstSearchNode) requestType
                               (SearchStore_tidForNode (search, n)) (Some target)
                               DHTConstants_infoHash m2;
                        m4 = m3 \<lparr> searchStore :=
                                    SearchStore_requestSent (search, n) (currentTimeMilliseconds m3)
                                      (searchStore m3) \<rparr>;
                        (m5, timeout) = Timeout_setTimeout search (tryNextNodeAfter m4) m4;
                        scc = \<lparr> resultCallback = callback, scc_target = target,
                                scc_timeout = timeout, scc_search = search,
                                scc_requestType = requestType \<rparr>
                    in Inr (m5 \<lparr> searchStore := (searchStore m5)
                                   [search := (searchStore m5 ! search)
                                      \<lparr> searchContext := Some scc \<rparr>] \<rparr>, 0))))"

text \<open>\<^verbatim>\<open>RouterModule_addNode\<close>: seeding by hand.\<close>

definition RouterModule_addNode :: "bytes \<Rightarrow> bytes \<Rightarrow> RouterModule \<Rightarrow> RouterModule" where
  "RouterModule_addNode addr netAddr module =
     module \<lparr> nodeStore := NodeStore_addNode (nodeStore module) addr netAddr \<rparr>"

section \<open>Example identifiers and states\<close>

text \<open>
  Identifiers of 20 bytes with a given first byte and a given fourth byte, the target with
  all bytes zero, and a router whose own identifier has the first byte FF, farther from
  that target than any other identifier used below.
\<close>

definition exampleId :: "u8 \<Rightarrow> u8 \<Rightarrow> bytes" where
  "exampleId hi lo = [hi, 0, 0, lo, 0, 0, 0, 0, 0, 0, 0, 0, 0, 0, 0, 0, 0, 0, 0, 0]"

definition exampleAddress :: "u8 \<Rightarrow> bytes" where
  "exampleAddress host = [10, 0, 0, host, 0x1F, 0x90]"

definition exampleModule :: RouterModule where
  "exampleModule = RouterModule_register (exampleId 0xFF 0) 5000"

definition find_node :: bytes where
  "find_node = [0x66, 0x69, 0x6E, 0x64, 0x5F, 0x6E, 0x6F, 0x64, 0x65]"

text \<open>
  A body for the loop of \<^verbatim>\<open>cleanup\<close> that changes nothing, a reply from the peer at
  \<open>exampleAddress 2\<close> with given transaction id and reply arguments, and a message of
  type reply that has no reply arguments at all.
\<close>

definition noReachUpdate :: reachUpdate where
  "noReachUpdate module targetPrefix parent child parentNode = Inr module"

definition exampleReply :: "bytes \<Rightarrow> Dict \<Rightarrow> DHTMessage" where
  "exampleReply tid arguments =
     DHTMessage [(DHTConstants_transactionId, BencString tid),
                 (DHTConstants_messageType, BencString DHTConstants_reply),
                 (DHTConstants_reply, BencDict arguments)]
       (exampleAddress 2) None"

definition bareReply :: DHTMessage where
  "bareReply =
     DHTMessage [(DHTConstants_transactionId, BencString [0, 0, 0, 0]),
                 (DHTConstants_messageType, BencString DHTConstants_reply)]
       (exampleAddress 2) None"

text \<open>
  A \<^verbatim>\<open>find_node\<close> query for a target from a querier at \<open>exampleAddress 2\<close>, our
  reply to a query before the router has handled it, and the router knowing one node
  with a given reach.
\<close>

definition exampleQuery :: "bytes \<Rightarrow> bytes \<Rightarrow> DHTMessage" where
  "exampleQuery querier target =
     DHTMessage [(DHTConstants_transactionId, BencString [1]),
                 (DHTConstants_messageType, BencString DHTConstants_query),
                 (DHTConstants_query, BencString find_node),
                 (DHTConstants_arguments,
                    BencDict [(DHTConstants_myId, BencString querier),
                              (DHTConstants_targetId, BencString target)])]
       (exampleAddress 2) None"

definition exampleAnswer :: "DHTMessage \<Rightarrow> DHTMessage" where
  "exampleAnswer query =
     DHTMessage [(DHTConstants_transactionId, BencString [1]),
                 (DHTConstants_messageType, BencString DHTConstants_reply)]
       (peerAddress query) (Some query)"

definition exampleModuleKnowing :: "bytes \<Rightarrow> bytes \<Rightarrow> u32 \<Rightarrow> RouterModule" where
  "exampleModuleKnowing addr netAddr r =
     exampleModule \<lparr> nodeStore := (nodeStore exampleModule)
       \<lparr> nodes := [\<lparr> address = addr, networkAddress = netAddr, reach = r \<rparr>] \<rparr> \<rparr>"

text \<open>
  A body for the loop of \<^verbatim>\<open>cleanup\<close> that writes the prefix of the child into the reach
  of the parent, so that the pairs the loop has visited can be read off the node store;
  and a callback that stops the search on the reply with transaction id 00 00 00 01.
\<close>

definition probeReachUpdate :: reachUpdate where
  "probeReachUpdate module targetPrefix parent child parentNode =
     Inr (module \<lparr> nodeStore := (nodeStore module)
            \<lparr> nodes := map (\<lambda>n. if address n = address parentNode
                                 then n \<lparr> reach := AddrPrefix_get (trace_address child) \<rparr>
                                 else n)
                          (nodes (nodeStore module)) \<rparr> \<rparr>)"

definition stopOnSecondReply :: "DHTMessage \<Rightarrow> int" where
  "stopOnSecondReply message =
     (if benc_lookupString (Some (asDict message)) DHTConstants_transactionId = Some [0, 0, 0, 1]
      then 1 else 0)"

section \<open>Unfolding the model on concrete states\<close>

lemmas consts_defs =
  DHTConstants_transactionId_def DHTConstants_messageType_def DHTConstants_query_def
  DHTConstants_arguments_def DHTConstants_reply_def DHTConstants_myId_def
  DHTConstants_targetId_def DHTConstants_infoHash_def DHTConstants_nodes_def

lemmas store_defs =
  NodeStore_getClosestNodes_def closerThanUs_def NodeStore_addNode_def NodeStore_new_def
  NodeStore_getNode_def
  ranksBefore_def AddrPrefix_get_def xorDistance_def
  SearchStore_newSearch_def SearchStore_addNodeToSearch_def SearchStore_getNextNode_def
  SearchStore_tidForNode_def SearchStore_getNode_def SearchStore_requestSent_def
  SearchStore_backTrace_def evictIfOlder_def unvisited_def
  AverageRoller_update_def AverageRoller_new_def AverageRoller_getAverage_def
  benc_lookupString_def benc_lookupDictionary_def benc_putString_def benc_putDictionary_def
  benc_stringEquals_def

lemmas router_defs =
  RouterModule_register_def RouterModule_addNode_def GMRT_SECONDS_def
  GMRT_INITAL_MILLISECONDS_def NODE_STORE_SIZE_def RETURN_SIZE_def RouterModule_K_def
  evictUnrepliedIfOlderThan_def tryNextNodeAfter_def DHTModules_handleOutgoing_def
  sendRequest_def Timeout_setTimeout_def Timeout_resetTimeout_def

lemmas example_defs =
  exampleId_def exampleAddress_def exampleModule_def find_node_def noReachUpdate_def
  exampleReply_def bareReply_def exampleQuery_def exampleAnswer_def exampleModuleKnowing_def
  probeReachUpdate_def stopOnSecondReply_def

section \<open>Properties of the distance helped\<close>

text \<open>
  C4. With \<open>at = node XOR target\<close>, \<open>bt = reply XOR target\<close> and
  \<open>ab = node XOR reply\<close>, \<^verbatim>\<open>calculateDistance\<close> returns 0 when \<open>bt > at\<close>, returns
  \<open>ab - bt\<close> when \<open>bt \<le> at\<close> and \<open>at < ab\<close>, and returns \<open>ab\<close> otherwise; on the
  prefixes 0xAAAAAAAA, 0x00000000, 0x55555555 it returns 0xAAAAAAAA.
\<close>

theorem calculateDistance_cases:
  "(n XOR t < r XOR t \<longrightarrow> calculateDistance n t r = 0) \<and>
   (r XOR t \<le> n XOR t \<and> n XOR t < n XOR r \<longrightarrow>
      calculateDistance n t r = (n XOR r) - (r XOR t)) \<and>
   (r XOR t \<le> n XOR t \<and> \<not> n XOR t < n XOR r \<longrightarrow> calculateDistance n t r = n XOR r) \<and>
   calculateDistance 0xAAAAAAAA 0x00000000 0x55555555 = 0xAAAAAAAA"
  by (auto simp: calculateDistance_def Let_def)

theorem calculateDistance_cases_witness:
  "((0x10000000::u32) XOR 0 < 0x20000000 XOR 0 \<and>
      calculateDistance 0x10000000 0 0x20000000 = 0) \<and>
   (((0x55555555::u32) XOR 0 \<le> 0xAAAAAAAA XOR 0 \<and>
      (0xAAAAAAAA::u32) XOR 0 < 0xAAAAAAAA XOR 0x55555555) \<and>
      calculateDistance 0xAAAAAAAA 0 0x55555555 = (0xAAAAAAAA XOR 0x55555555) - (0x55555555 XOR 0)) \<and>
   (((0x40000000::u32) XOR 0 \<le> 0x60000000 XOR 0 \<and>
      \<not> (0x60000000::u32) XOR 0 < 0x60000000 XOR 0x40000000) \<and>
      calculateDistance 0x60000000 0 0x40000000 = 0x60000000 XOR 0x40000000)"
  using calculateDistance_cases [of "0x10000000" 0 "0x20000000"]
        calculateDistance_cases [of "0xAAAAAAAA" 0 "0x55555555"]
        calculateDistance_cases [of "0x60000000" 0 "0x40000000"]
  by simp

text \<open>
  C5. Whenever \<open>reply XOR target \<ge> node XOR target\<close>, equality included,
  \<^verbatim>\<open>calculateDistance\<close> returns 0: in the case of equality the reply is the node
  itself, so the distance between the two is 0.
\<close>

theorem calculateDistance_backpedal:
  assumes "n XOR t \<le> r XOR t"
  shows "calculateDistance n t r = 0"
proof (cases "n XOR t < r XOR t")
  case True
  then show ?thesis by (simp add: calculateDistance_def Let_def)
next
  case False
  with assms have eq: "r XOR t = n XOR t" by simp
  have "r = (r XOR t) XOR t" by (simp add: xor.assoc)
  also have "\<dots> = (n XOR t) XOR t" by (simp only: eq)
  also have "\<dots> = n" by (simp add: xor.assoc)
  finally have "r = n" .
  then show ?thesis by (simp add: calculateDistance_def Let_def)
qed

theorem calculateDistance_backpedal_witness:
  "((0x10000000::u32) XOR 0 \<le> 0x20000000 XOR 0 \<and> calculateDistance 0x10000000 0 0x20000000 = 0) \<and>
   ((0x12345678::u32) XOR 0xFF \<le> 0x12345678 XOR 0xFF \<and>
      calculateDistance 0x12345678 0xFF 0x12345678 = 0)"
  using calculateDistance_backpedal [of "0x10000000" 0 "0x20000000"]
        calculateDistance_backpedal [of "0x12345678" "0xFF" "0x12345678"]
  by simp

section \<open>Properties of the response time ratio\<close>

text \<open>
  What holds of the ratio for a mean that is not zero: it is 0 for a response time of 0,
  it is \<^verbatim>\<open>UINT32_MAX\<close> for a response time above twice the mean, the product of the
  other branch never wraps around, and the ratio never decreases when the response time
  grows.
\<close>

lemma responseTimeRatio_zero: "gmrt \<noteq> 0 \<Longrightarrow> responseTimeRatio gmrt 0 = Inr 0"
  by (simp add: responseTimeRatio_def)

lemma responseTimeRatio_punished: "2 * gmrt < t \<Longrightarrow> responseTimeRatio gmrt t = Inr UINT32_MAX"
  by (simp add: responseTimeRatio_def)

lemma unat_scaled_response_time:
  fixes gmrt t :: u32
  assumes g: "gmrt \<noteq> 0" and t: "\<not> 2 * gmrt < t"
  shows "unat (((UINT32_MAX div 2) div gmrt) * t) = (2147483647 div unat gmrt) * unat t"
proof (cases "unat gmrt < 2 ^ 31")
  case True
  have c: "unat ((UINT32_MAX div 2) div gmrt) = 2147483647 div unat gmrt"
    by (simp add: unat_div)
  from True have "unat (2 * gmrt) = 2 * unat gmrt"
    by (simp add: unat_word_ariths)
  with t have tle: "unat t \<le> 2 * unat gmrt"
    by (simp add: word_less_nat_alt not_less)
  have "(2147483647 div unat gmrt) * unat t \<le> (2147483647 div unat gmrt) * (2 * unat gmrt)"
    using tle by (rule mult_le_mono2)
  also have "\<dots> = 2 * ((2147483647 div unat gmrt) * unat gmrt)" by simp
  also have "\<dots> \<le> 2 * 2147483647"
    by (rule mult_le_mono2) simp
  finally have lt: "(2147483647 div unat gmrt) * unat t < 4294967296" by simp
  have "2147483647 div unat gmrt < (4294967296::nat)"
    using div_le_dividend [of 2147483647 "unat gmrt"] by linarith
  then have q: "2147483647 div unat gmrt mod 4294967296 = 2147483647 div unat gmrt"
    by (rule mod_less)
  show ?thesis
    using lt by (simp add: unat_word_ariths c q)
next
  case False
  then have "2147483647 div unat gmrt = 0" by simp
  then have "unat ((UINT32_MAX div 2) div gmrt) = 0"
    by (simp add: unat_div)
  then have "(UINT32_MAX div 2) div gmrt = 0"
    by (simp only: unat_eq_0)
  then show ?thesis using False by simp
qed

lemma responseTimeRatio_mono:
  assumes "gmrt \<noteq> 0" "t1 \<le> t2"
    and "responseTimeRatio gmrt t1 = Inr a" "responseTimeRatio gmrt t2 = Inr b"
  shows "a \<le> b"
proof (cases "2 * gmrt < t2")
  case True
  then have "b = UINT32_MAX" using assms(4) by (simp add: responseTimeRatio_def)
  moreover have "UINT32_MAX = (- 1 :: u32)" by simp
  ultimately show ?thesis by (simp only: word_order.extremum)
next
  case False
  with assms(2) have n1: "\<not> 2 * gmrt < t1" by auto
  from False assms have b: "b = ((UINT32_MAX div 2) div gmrt) * t2"
    by (simp add: responseTimeRatio_def)
  from n1 assms have a: "a = ((UINT32_MAX div 2) div gmrt) * t1"
    by (simp add: responseTimeRatio_def)
  have "unat a \<le> unat b"
    unfolding a b unat_scaled_response_time [OF assms(1) n1]
      unat_scaled_response_time [OF assms(1) False]
    using assms(2) by (simp add: word_le_nat_alt mult_le_mono2)
  then show ?thesis by (simp add: word_le_nat_alt)
qed

text \<open>
  C3. The claim gives \<^verbatim>\<open>UINT32_MAX\<close> for every response time of at least twice the
  mean and exactly \<^verbatim>\<open>UINT32_MAX/2\<close> for a response time equal to the mean, as the
  comment above \<^verbatim>\<open>calculateResponseTimeRatio\<close> does. The code compares strictly
  and divides before it multiplies: with a mean of 100 ms, a response time of 200 ms gives
  4294967200 and not 4294967295, and a response time of 100 ms gives 2147483600 and not
  2147483647. The second value is also what the function returns for a first reply after
  100 ms, the roller then holding the initial sample of 100 ms only.
\<close>

theorem responseTimeRatio_at_mean_and_twice_mean:
  "responseTimeRatio 100 200 = Inr 4294967200 \<and>
   responseTimeRatio 100 200 \<noteq> Inr UINT32_MAX \<and>
   responseTimeRatio 100 100 = Inr 2147483600 \<and>
   responseTimeRatio 100 100 \<noteq> Inr (UINT32_MAX div 2) \<and>
   snd (calculateResponseTimeRatio 5 (gmrtRoller exampleModule) 100) = Inr 2147483600"
  by (simp add: responseTimeRatio_def calculateResponseTimeRatio_def AverageRoller_update_def
      AverageRoller_new_def exampleModule_def RouterModule_register_def GMRT_SECONDS_def
      GMRT_INITAL_MILLISECONDS_def Let_def)

text \<open>
  C10. \<^verbatim>\<open>calculateResponseTimeRatio\<close> updates the roller with the response time and
  takes the ratio against the mean that the update returns, which is also the mean the
  roller holds afterwards. For a roller that holds the initial sample of 100 ms, a reply
  after 250 ms moves the mean to 175 ms and is rated 3067833750, whereas against the mean
  of 100 ms held before the call it is beyond twice the mean and would be rated
  \<^verbatim>\<open>UINT32_MAX\<close>.
\<close>

theorem calculateResponseTimeRatio_rates_against_updated_mean:
  "calculateResponseTimeRatio now roller t =
     (fst (AverageRoller_update now roller t),
      responseTimeRatio (snd (AverageRoller_update now roller t)) t) \<and>
   AverageRoller_getAverage (fst (AverageRoller_update now roller t)) =
     snd (AverageRoller_update now roller t) \<and>
   AverageRoller_getAverage (gmrtRoller exampleModule) = 100 \<and>
   snd (AverageRoller_update 5 (gmrtRoller exampleModule) 250) = 175 \<and>
   snd (calculateResponseTimeRatio 5 (gmrtRoller exampleModule) 250) = Inr 3067833750 \<and>
   responseTimeRatio (AverageRoller_getAverage (gmrtRoller exampleModule)) 250 = Inr UINT32_MAX"
  by (simp add: responseTimeRatio_def calculateResponseTimeRatio_def AverageRoller_update_def
      AverageRoller_getAverage_def AverageRoller_new_def exampleModule_def
      RouterModule_register_def GMRT_SECONDS_def GMRT_INITAL_MILLISECONDS_def Let_def
      split_def)

section \<open>The search step without a next node\<close>

lemma searchStep_exhausted:
  "SearchStore_getNextNode (searchStore module ! scc_search context) = None \<Longrightarrow>
   searchStep context module = Inl NullDereference"
  by (simp add: searchStep_def)

text \<open>
  C7. The claim has the search finalised when there is no next node. \<^verbatim>\<open>searchStep\<close>
  has no such case: it reads the network address of the node it was given, NULL or not.
  A search begun with one known node has sent its only request when
  \<^verbatim>\<open>RouterModule_beginSearch\<close> returns 0; from then on there is no next node, and the step
  run by the timer follows the NULL pointer. So does the step run by \<^verbatim>\<open>handleReply\<close>
  when that node replies with an empty list of nodes and the callback asks to go on.
\<close>

theorem searchStep_follows_null_next_node:
  "(case RouterModule_beginSearch find_node (exampleId 0 0) callback
           (RouterModule_addNode (exampleId 0x80 0) (exampleAddress 2) exampleModule) of
      Inl e \<Rightarrow> False
    | Inr (m, r) \<Rightarrow>
        r = 0 \<and>
        (case searchContext (searchStore m ! 0) of
           None \<Rightarrow> False
         | Some scc \<Rightarrow>
             SearchStore_getNextNode (searchStore m ! scc_search scc) = None \<and>
             searchStep scc m = Inl NullDereference)) \<and>
   (case RouterModule_beginSearch find_node (exampleId 0 0) (\<lambda>message. 0)
           (RouterModule_addNode (exampleId 0x80 0) (exampleAddress 2) exampleModule) of
      Inl e \<Rightarrow> False
    | Inr (m, r) \<Rightarrow>
        handleIncoming noReachUpdate
          (exampleReply [0, 0, 0, 0]
             [(DHTConstants_myId, BencString (exampleId 0x80 0)),
              (DHTConstants_nodes, BencString [])]) m = Inl NullDereference)"
  by (simp add: RouterModule_beginSearch_def searchStep_def handleIncoming_def handleReply_def
      addReplyNodes.simps [of _ _ "[]"] store_defs router_defs example_defs consts_defs
      Let_def split_def)

section \<open>Replies without a well-formed list of nodes\<close>

text \<open>
  A message of type reply that has no reply arguments is ignored: \<^verbatim>\<open>handleReply\<close>
  returns 0 at its first test, before it looks at \<^verbatim>\<open>nodes\<close>, and nothing changes.
\<close>

lemma handleIncoming_without_reply_arguments:
  assumes "benc_lookupDictionary (Some (asDict message)) DHTConstants_reply = None"
  shows "handleIncoming body message module = Inr (module, 0)"
  using assms by (simp add: handleIncoming_def handleReply_def)

lemma handleIncoming_without_reply_arguments_example:
  "benc_lookupString (Some (asDict bareReply)) DHTConstants_messageType = Some DHTConstants_reply \<and>
   handleIncoming noReachUpdate bareReply exampleModule = Inr (exampleModule, 0)"
  using handleIncoming_without_reply_arguments [of bareReply noReachUpdate exampleModule]
  by (simp add: benc_lookupString_def benc_lookupDictionary_def bareReply_def consts_defs)

text \<open>
  For every incoming message of type reply whose reply arguments hold a \<^verbatim>\<open>myId\<close> of at
  least 20 bytes and whose \<^verbatim>\<open>nodes\<close> value is absent or of a length not divisible by
  26, the handler returns -1 and the module differs from the one before only in the node
  store, to which the sender has been added under the first 20 bytes of \<^verbatim>\<open>myId\<close> with
  the address of the peer: no search has been touched, no message has been sent and no
  timer has been set.
\<close>

lemma handleIncoming_ping_answer:
  assumes "benc_lookupString (Some (asDict message)) DHTConstants_messageType = Some DHTConstants_reply"
    and "benc_lookupDictionary (Some (asDict message)) DHTConstants_reply = Some arguments"
    and "case benc_lookupString (Some arguments) DHTConstants_nodes of
           None \<Rightarrow> True | Some ns \<Rightarrow> length ns mod 26 \<noteq> 0"
    and "benc_lookupString (Some arguments) DHTConstants_myId = Some addr"
    and "20 \<le> length addr"
  shows "handleIncoming body message module =
           Inr (module \<lparr> nodeStore := NodeStore_addNode (nodeStore module) (take 20 addr)
                                      (take 6 (peerAddress message)) \<rparr>, - 1)"
  using assms
  by (auto simp: handleIncoming_def benc_stringEquals_def handleReply_def Let_def
      split: option.splits)

lemma handleIncoming_ping_answer_example:
  "handleIncoming noReachUpdate
     (exampleReply [0, 0, 0, 0] [(DHTConstants_myId, BencString (exampleId 0x80 0))])
     exampleModule =
   Inr (exampleModule \<lparr> nodeStore := (nodeStore exampleModule)
          \<lparr> nodes := [\<lparr> address = exampleId 0x80 0, networkAddress = exampleAddress 2,
                         reach = 0 \<rparr>] \<rparr> \<rparr>, - 1) \<and>
   handleIncoming noReachUpdate
     (exampleReply [0, 0, 0, 0]
        [(DHTConstants_myId, BencString (exampleId 0x80 0)),
         (DHTConstants_nodes, BencString [1, 2, 3, 4, 5])])
     exampleModule =
   Inr (exampleModule \<lparr> nodeStore := (nodeStore exampleModule)
          \<lparr> nodes := [\<lparr> address = exampleId 0x80 0, networkAddress = exampleAddress 2,
                         reach = 0 \<rparr>] \<rparr> \<rparr>, - 1)"
  using handleIncoming_ping_answer
          [of "exampleReply [0, 0, 0, 0] [(DHTConstants_myId, BencString (exampleId 0x80 0))]"
              "[(DHTConstants_myId, BencString (exampleId 0x80 0))]"
              "exampleId 0x80 0" noReachUpdate exampleModule]
        handleIncoming_ping_answer
          [of "exampleReply [0, 0, 0, 0]
                 [(DHTConstants_myId, BencString (exampleId 0x80 0)),
                  (DHTConstants_nodes, BencString [1, 2, 3, 4, 5])]"
              "[(DHTConstants_myId, BencString (exampleId 0x80 0)),
                (DHTConstants_nodes, BencString [1, 2, 3, 4, 5])]"
              "exampleId 0x80 0" noReachUpdate exampleModule]
  by (simp add: store_defs router_defs example_defs consts_defs)

text \<open>
  C8. The claim has every reply whose \<^verbatim>\<open>nodes\<close> value is absent or of a length not
  divisible by 26 treated as the answer to a ping: the sender is added to the node store
  and the search is left alone. \<^verbatim>\<open>handleReply\<close> does so only when the reply arguments
  hold a \<^verbatim>\<open>myId\<close>: it passes the bytes of the string it has looked up to
  \<^verbatim>\<open>NodeStore_addNode\<close> with no test for NULL, where \<^verbatim>\<open>handleQuery\<close> tests the id of
  a query for NULL and for its length. A reply from the peer at \<open>exampleAddress 2\<close>
  whose reply arguments are empty has no \<^verbatim>\<open>nodes\<close> value, and one whose reply
  arguments hold nothing but a \<^verbatim>\<open>nodes\<close> value of 5 bytes has a malformed one: for
  either, whatever the transaction id and the state of the router, the handler ends in
  the dereference of NULL; nobody is added and nothing is returned.
\<close>

theorem handleIncoming_ping_without_myId:
  "benc_lookupString (Some (asDict (exampleReply tid []))) DHTConstants_messageType =
     Some DHTConstants_reply \<and>
   benc_lookupDictionary (Some (asDict (exampleReply tid []))) DHTConstants_reply = Some [] \<and>
   benc_lookupString (Some []) DHTConstants_nodes = None \<and>
   handleIncoming body (exampleReply tid []) module = Inl NullDereference \<and>
   benc_lookupString
     (Some (asDict (exampleReply tid [(DHTConstants_nodes, BencString [1, 2, 3, 4, 5])])))
     DHTConstants_messageType = Some DHTConstants_reply \<and>
   benc_lookupDictionary
     (Some (asDict (exampleReply tid [(DHTConstants_nodes, BencString [1, 2, 3, 4, 5])])))
     DHTConstants_reply = Some [(DHTConstants_nodes, BencString [1, 2, 3, 4, 5])] \<and>
   benc_lookupString (Some [(DHTConstants_nodes, BencString [1, 2, 3, 4, 5])]) DHTConstants_nodes =
     Some [1, 2, 3, 4, 5] \<and>
   length [1, 2, 3, 4, 5 :: u8] mod 26 \<noteq> 0 \<and>
   handleIncoming body (exampleReply tid [(DHTConstants_nodes, BencString [1, 2, 3, 4, 5])]) module =
     Inl NullDereference"
  by (simp add: handleIncoming_def handleReply_def benc_lookupString_def benc_lookupDictionary_def
      benc_stringEquals_def exampleReply_def consts_defs)

text \<open>
  C9. Where a reply has reply arguments whose \<^verbatim>\<open>nodes\<close> value is absent or of a length
  not divisible by 26, \<^verbatim>\<open>handleReply\<close> looks \<^verbatim>\<open>myId\<close> up and reads through the result
  with no test for NULL: without a \<^verbatim>\<open>myId\<close> the handler ends in the dereference of NULL
  instead of dropping the packet, and whenever it does return, the reply carried a
  \<^verbatim>\<open>myId\<close>.
\<close>

theorem handleReply_missing_myId:
  assumes "benc_lookupDictionary (Some (asDict message)) DHTConstants_reply = Some arguments"
    and "case benc_lookupString (Some arguments) DHTConstants_nodes of
           None \<Rightarrow> True | Some ns \<Rightarrow> length ns mod 26 \<noteq> 0"
  shows "(benc_lookupString (Some arguments) DHTConstants_myId = None \<longrightarrow>
            handleReply body message module = Inl NullDereference) \<and>
         ((\<exists>r. handleReply body message module = Inr r) \<longrightarrow>
            benc_lookupString (Some arguments) DHTConstants_myId \<noteq> None)"
  using assms by (auto simp: handleReply_def Let_def split: option.splits)

theorem handleReply_missing_myId_witness:
  "handleReply noReachUpdate (exampleReply [0, 0, 0, 0] []) exampleModule = Inl NullDereference \<and>
   handleReply noReachUpdate
     (exampleReply [0, 0, 0, 0] [(DHTConstants_nodes, BencString [1, 2, 3, 4, 5])])
     exampleModule = Inl NullDereference \<and>
   (\<exists>r. handleReply noReachUpdate
           (exampleReply [0, 0, 0, 0] [(DHTConstants_myId, BencString (exampleId 0x80 0))])
           exampleModule = Inr r) \<and>
   benc_lookupString (Some [(DHTConstants_myId, BencString (exampleId 0x80 0))]) DHTConstants_myId
     \<noteq> None"
  using handleReply_missing_myId
          [of "exampleReply [0, 0, 0, 0] []" "[]" noReachUpdate exampleModule]
        handleReply_missing_myId
          [of "exampleReply [0, 0, 0, 0] [(DHTConstants_nodes, BencString [1, 2, 3, 4, 5])]"
              "[(DHTConstants_nodes, BencString [1, 2, 3, 4, 5])]" noReachUpdate exampleModule]
        handleReply_missing_myId
          [of "exampleReply [0, 0, 0, 0] [(DHTConstants_myId, BencString (exampleId 0x80 0))]"
              "[(DHTConstants_myId, BencString (exampleId 0x80 0))]" noReachUpdate exampleModule]
  by (simp add: handleReply_def store_defs router_defs example_defs consts_defs)

section \<open>Starting a search: seeds and the first request\<close>

text \<open>
  The next node of a search exists as long as one of its nodes has not been visited, and
  the seeds of a new search are its nodes, in the order of the list of closest nodes.
\<close>

lemma nextNodeFrom_None_iff:
  "nextNodeFrom target i ns = None \<longleftrightarrow> (\<forall>n \<in> set ns. \<not> unvisited n)"
  by (induction ns arbitrary: i) (auto split: option.splits)

lemma nextNodeFrom_index:
  "nextNodeFrom target i ns = Some (j, d) \<Longrightarrow> i \<le> j \<and> j < i + length ns"
proof (induction ns arbitrary: i j d)
  case Nil
  then show ?case by simp
next
  case (Cons n ns)
  show ?case
  proof (cases "nextNodeFrom target (Suc i) ns")
    case None
    with Cons.prems show ?thesis by (auto split: if_splits)
  next
    case (Some p)
    obtain j' d' where p: "p = (j', d')" by (cases p)
    from Cons.IH [of "Suc i" j' d'] Some p have "Suc i \<le> j' \<and> j' < Suc i + length ns" by simp
    with Cons.prems Some p show ?thesis by (auto split: if_splits)
  qed
qed

lemma addSeeds_unvisited:
  "ns \<noteq> [] \<Longrightarrow> \<exists>x \<in> set (searchNodes (addSeeds e ns s)). unvisited x"
proof (induction ns arbitrary: s)
  case Nil
  then show ?case by simp
next
  case (Cons n ns)
  show ?case
  proof (cases "ns = []")
    case True
    then show ?thesis by (simp add: SearchStore_addNodeToSearch_def unvisited_def)
  next
    case False
    from Cons.IH [OF False] show ?thesis by simp
  qed
qed

lemma getNextNode_addSeeds:
  assumes "ns \<noteq> []"
  shows "\<exists>n. SearchStore_getNextNode (addSeeds e ns s) = Some n \<and>
             n < length (searchNodes (addSeeds e ns s))"
proof -
  from addSeeds_unvisited [OF assms]
  have "nextNodeFrom (searchTarget (addSeeds e ns s)) 0 (searchNodes (addSeeds e ns s)) \<noteq> None"
    by (simp add: nextNodeFrom_None_iff)
  then obtain j d where
    jd: "nextNodeFrom (searchTarget (addSeeds e ns s)) 0 (searchNodes (addSeeds e ns s)) = Some (j, d)"
    by auto
  from nextNodeFrom_index [OF jd] jd show ?thesis
    by (simp add: SearchStore_getNextNode_def)
qed

lemma beginSearch_no_candidates:
  "NodeStore_getClosestNodes (nodeStore module) target RETURN_SIZE = [] \<Longrightarrow>
   RouterModule_beginSearch requestType target callback module =
     Inr (module \<lparr> searchStore := searchStore module @
            [\<lparr> searchTarget = target, searchNodes = [], searchContext = None \<rparr>] \<rparr>, - 1)"
  by (simp add: RouterModule_beginSearch_def SearchStore_newSearch_def)


lemma addSeeds_addresses:
  "map (\<lambda>x. (searchNode_address x, searchNode_networkAddress x)) (searchNodes (addSeeds e ns s)) =
   map (\<lambda>x. (searchNode_address x, searchNode_networkAddress x)) (searchNodes s) @
   map (\<lambda>n. (address n, networkAddress n)) ns"
  by (induction ns arbitrary: s)
     (auto simp: SearchStore_addNodeToSearch_def evictIfOlder_def split: option.splits)

lemma addSeeds_nth:
  assumes "n < length (searchNodes (addSeeds e ns \<lparr> searchTarget = t, searchNodes = [], searchContext = None \<rparr>))"
  shows "n < length ns \<and>
         searchNode_networkAddress
           (searchNodes (addSeeds e ns \<lparr> searchTarget = t, searchNodes = [], searchContext = None \<rparr>) ! n) =
         networkAddress (ns ! n)"
proof -
  let ?s = "addSeeds e ns \<lparr> searchTarget = t, searchNodes = [], searchContext = None \<rparr>"
  let ?F = "\<lambda>x. (searchNode_address x, searchNode_networkAddress x)"
  let ?G = "\<lambda>n. (address n, networkAddress n)"
  have "map ?F (searchNodes ?s) =
        map ?F (searchNodes \<lparr> searchTarget = t, searchNodes = [], searchContext = None \<rparr>) @ map ?G ns"
    by (rule addSeeds_addresses)
  also have "\<dots> = map ?G ns" by simp
  finally have eq: "map ?F (searchNodes ?s) = map ?G ns" .
  from arg_cong [OF eq, of length] have len: "length (searchNodes ?s) = length ns"
    by (simp only: length_map)
  with assms have n: "n < length ns" by (simp only:)
  from arg_cong [OF eq, of "\<lambda>xs. xs ! n"]
  have "map ?F (searchNodes ?s) ! n = map ?G ns ! n" .
  then have "?F (searchNodes ?s ! n) = ?G (ns ! n)"
    by (simp only: nth_map [OF assms] nth_map [OF n])
  then have "searchNode_networkAddress (searchNodes ?s ! n) = networkAddress (ns ! n)"
    by (simp only: prod.inject)
  with n show ?thesis by (rule_tac conjI)
qed

lemma beginSearch_candidates_seeded:
  assumes n: "SearchStore_getNextNode
              (addSeeds (evictUnrepliedIfOlderThan module)
                 (NodeStore_getClosestNodes (nodeStore module) target RETURN_SIZE)
                 \<lparr> searchTarget = target, searchNodes = [], searchContext = None \<rparr>) = Some n"
    and l: "n < length (searchNodes (addSeeds (evictUnrepliedIfOlderThan module)
                 (NodeStore_getClosestNodes (nodeStore module) target RETURN_SIZE)
                 \<lparr> searchTarget = target, searchNodes = [], searchContext = None \<rparr>))"
  shows "\<exists>m. RouterModule_beginSearch requestType target callback module = Inr (m, 0) \<and>
           registry m = registry module @
             [DHTMessage
                [(DHTConstants_transactionId,
                    BencString (SearchStore_tidForNode (length (searchStore module), n))),
                 (DHTConstants_messageType, BencString DHTConstants_query),
                 (DHTConstants_arguments,
                    BencDict [(DHTConstants_myId, BencString (myAddress module)),
                              (DHTConstants_infoHash, BencString target)]),
                 (DHTConstants_query, BencString requestType)]
                (take 6 (searchNode_networkAddress
                   (searchNodes (addSeeds (evictUnrepliedIfOlderThan module)
                      (NodeStore_getClosestNodes (nodeStore module) target RETURN_SIZE)
                      \<lparr> searchTarget = target, searchNodes = [], searchContext = None \<rparr>) ! n)))
                None] \<and>
           eventBase m = eventBase module @
             [\<lparr> timeout_search = length (searchStore module),
                timeout_milliseconds = tryNextNodeAfter module \<rparr>] \<and>
           searchNode_timeOfRequest
             (searchNodes (searchStore m ! length (searchStore module)) ! n) =
               Some (currentTimeMilliseconds module)"
proof -
  from addSeeds_nth [OF l]
  have c: "NodeStore_getClosestNodes (nodeStore module) target RETURN_SIZE \<noteq> []"
    by auto
  show ?thesis
    using c n l
    by (simp add: RouterModule_beginSearch_def SearchStore_newSearch_def Let_def split_def
      sendRequest_def DHTModules_handleOutgoing_def SearchStore_requestSent_def
      Timeout_setTimeout_def tryNextNodeAfter_def evictUnrepliedIfOlderThan_def
      benc_putString_def benc_putDictionary_def
      DHTConstants_transactionId_def DHTConstants_messageType_def DHTConstants_query_def
      DHTConstants_arguments_def DHTConstants_myId_def DHTConstants_infoHash_def
      AverageRoller_getAverage_def nth_append)
qed

lemma beginSearch_candidates:
  assumes n: "SearchStore_getNextNode
              (addSeeds (evictUnrepliedIfOlderThan module)
                 (NodeStore_getClosestNodes (nodeStore module) target RETURN_SIZE)
                 \<lparr> searchTarget = target, searchNodes = [], searchContext = None \<rparr>) = Some n"
    and l: "n < length (searchNodes (addSeeds (evictUnrepliedIfOlderThan module)
                 (NodeStore_getClosestNodes (nodeStore module) target RETURN_SIZE)
                 \<lparr> searchTarget = target, searchNodes = [], searchContext = None \<rparr>))"
  shows "\<exists>m. RouterModule_beginSearch requestType target callback module = Inr (m, 0) \<and>
           registry m = registry module @
             [DHTMessage
                [(DHTConstants_transactionId,
                    BencString (SearchStore_tidForNode (length (searchStore module), n))),
                 (DHTConstants_messageType, BencString DHTConstants_query),
                 (DHTConstants_arguments,
                    BencDict [(DHTConstants_myId, BencString (myAddress module)),
                              (DHTConstants_infoHash, BencString target)]),
                 (DHTConstants_query, BencString requestType)]
                (take 6 (networkAddress
                   (NodeStore_getClosestNodes (nodeStore module) target RETURN_SIZE ! n)))
                None] \<and>
           eventBase m = eventBase module @
             [\<lparr> timeout_search = length (searchStore module),
                timeout_milliseconds = tryNextNodeAfter module \<rparr>] \<and>
           searchNode_timeOfRequest
             (searchNodes (searchStore m ! length (searchStore module)) ! n) =
               Some (currentTimeMilliseconds module)"
proof -
  from addSeeds_nth [OF l]
  have eq: "searchNode_networkAddress
              (searchNodes (addSeeds (evictUnrepliedIfOlderThan module)
                 (NodeStore_getClosestNodes (nodeStore module) target RETURN_SIZE)
                 \<lparr> searchTarget = target, searchNodes = [], searchContext = None \<rparr>) ! n) =
            networkAddress (NodeStore_getClosestNodes (nodeStore module) target RETURN_SIZE ! n)"
    by (rule conjunct2)
  show ?thesis
    using beginSearch_candidates_seeded [OF n l, of requestType callback]
    by (simp only: eq)
qed

text \<open>
  C6. \<^verbatim>\<open>RouterModule_beginSearch\<close> returns -1 exactly when the node store's closest
  nodes for the target, with \<^verbatim>\<open>RETURN_SIZE\<close>, are none. Then no message has gone to the
  registry and no timer to the event base. Otherwise it returns 0, having sent one
  \<^verbatim>\<open>info_hash\<close> request with our id and the target to the candidate that
  \<^verbatim>\<open>SearchStore_getNextNode\<close> picks among the seeds, under the transaction id of that
  node, having recorded the time of the request on it, and having set the timer of the
  search to \<^verbatim>\<open>tryNextNodeAfter\<close>. In no case does it end in an error.
\<close>

theorem RouterModule_beginSearch_result:
  "let candidates = NodeStore_getClosestNodes (nodeStore module) target RETURN_SIZE
   in ((\<exists>m. RouterModule_beginSearch requestType target callback module = Inr (m, - 1)) \<longleftrightarrow>
         candidates = []) \<and>
      (candidates = [] \<longrightarrow>
         (\<exists>m. RouterModule_beginSearch requestType target callback module = Inr (m, - 1) \<and>
              registry m = registry module \<and> eventBase m = eventBase module)) \<and>
      (candidates \<noteq> [] \<longrightarrow>
         (\<exists>m n. RouterModule_beginSearch requestType target callback module = Inr (m, 0) \<and>
              n < length candidates \<and>
              SearchStore_getNextNode
                (addSeeds (evictUnrepliedIfOlderThan module) candidates
                   \<lparr> searchTarget = target, searchNodes = [], searchContext = None \<rparr>) = Some n \<and>
              registry m = registry module @
                [DHTMessage
                   [(DHTConstants_transactionId,
                       BencString (SearchStore_tidForNode (length (searchStore module), n))),
                    (DHTConstants_messageType, BencString DHTConstants_query),
                    (DHTConstants_arguments,
                       BencDict [(DHTConstants_myId, BencString (myAddress module)),
                                 (DHTConstants_infoHash, BencString target)]),
                    (DHTConstants_query, BencString requestType)]
                   (take 6 (networkAddress (candidates ! n)))
                   None] \<and>
              eventBase m = eventBase module @
                [\<lparr> timeout_search = length (searchStore module),
                   timeout_milliseconds = tryNextNodeAfter module \<rparr>] \<and>
              searchNode_timeOfRequest
                (searchNodes (searchStore m ! length (searchStore module)) ! n) =
                  Some (currentTimeMilliseconds module)))"
proof -
  let ?c = "NodeStore_getClosestNodes (nodeStore module) target RETURN_SIZE"
  let ?seeded = "addSeeds (evictUnrepliedIfOlderThan module) ?c
                   \<lparr> searchTarget = target, searchNodes = [], searchContext = None \<rparr>"
  let ?r = "RouterModule_beginSearch requestType target callback module"
  have empty: "?c = [] \<longrightarrow>
      (\<exists>m. ?r = Inr (m, - 1) \<and> registry m = registry module \<and> eventBase m = eventBase module)"
    by (simp add: beginSearch_no_candidates)
  have full: "?c \<noteq> [] \<longrightarrow>
      (\<exists>m n. ?r = Inr (m, 0) \<and> n < length ?c \<and> SearchStore_getNextNode ?seeded = Some n \<and>
           registry m = registry module @
                [DHTMessage
                   [(DHTConstants_transactionId,
                       BencString (SearchStore_tidForNode (length (searchStore module), n))),
                    (DHTConstants_messageType, BencString DHTConstants_query),
                    (DHTConstants_arguments,
                       BencDict [(DHTConstants_myId, BencString (myAddress module)),
                                 (DHTConstants_infoHash, BencString target)]),
                    (DHTConstants_query, BencString requestType)]
                   (take 6 (networkAddress (?c ! n)))
                   None] \<and>
           eventBase m = eventBase module @
                [\<lparr> timeout_search = length (searchStore module),
                   timeout_milliseconds = tryNextNodeAfter module \<rparr>] \<and>
           searchNode_timeOfRequest
                (searchNodes (searchStore m ! length (searchStore module)) ! n) =
                  Some (currentTimeMilliseconds module))"
  proof
    assume ne: "?c \<noteq> []"
    from getNextNode_addSeeds [OF ne] obtain n where
      n: "SearchStore_getNextNode ?seeded = Some n" and l: "n < length (searchNodes ?seeded)"
      by blast
    from addSeeds_nth [OF l] have nc: "n < length ?c" by simp
    from beginSearch_candidates [OF n l, of requestType callback] obtain m where
      m: "?r = Inr (m, 0)"
        "registry m = registry module @
                [DHTMessage
                   [(DHTConstants_transactionId,
                       BencString (SearchStore_tidForNode (length (searchStore module), n))),
                    (DHTConstants_messageType, BencString DHTConstants_query),
                    (DHTConstants_arguments,
                       BencDict [(DHTConstants_myId, BencString (myAddress module)),
                                 (DHTConstants_infoHash, BencString target)]),
                    (DHTConstants_query, BencString requestType)]
                   (take 6 (networkAddress (?c ! n)))
                   None]"
        "eventBase m = eventBase module @
                [\<lparr> timeout_search = length (searchStore module),
                   timeout_milliseconds = tryNextNodeAfter module \<rparr>]"
        "searchNode_timeOfRequest
                (searchNodes (searchStore m ! length (searchStore module)) ! n) =
                  Some (currentTimeMilliseconds module)"
      by (elim exE conjE)
    show "\<exists>m n. ?r = Inr (m, 0) \<and> n < length ?c \<and> SearchStore_getNextNode ?seeded = Some n \<and>
           registry m = registry module @
                [DHTMessage
                   [(DHTConstants_transactionId,
                       BencString (SearchStore_tidForNode (length (searchStore module), n))),
                    (DHTConstants_messageType, BencString DHTConstants_query),
                    (DHTConstants_arguments,
                       BencDict [(DHTConstants_myId, BencString (myAddress module)),
                                 (DHTConstants_infoHash, BencString target)]),
                    (DHTConstants_query, BencString requestType)]
                   (take 6 (networkAddress (?c ! n)))
                   None] \<and>
           eventBase m = eventBase module @
                [\<lparr> timeout_search = length (searchStore module),
                   timeout_milliseconds = tryNextNodeAfter module \<rparr>] \<and>
           searchNode_timeOfRequest
                (searchNodes (searchStore m ! length (searchStore module)) ! n) =
                  Some (currentTimeMilliseconds module)"
      by (rule exI [of _ m], rule exI [of _ n]) (intro conjI m nc n)
  qed
  have zero: "?c \<noteq> [] \<longrightarrow> (\<exists>m. ?r = Inr (m, 0))"
  proof
    assume "?c \<noteq> []"
    with full obtain m n where "?r = Inr (m, 0)" by (elim impE exE conjE)
    then show "\<exists>m. ?r = Inr (m, 0)" by (rule exI)
  qed
  have minus: "?c = [] \<longrightarrow> (\<exists>m. ?r = Inr (m, - 1))"
    by (simp add: beginSearch_no_candidates)
  have iff: "(\<exists>m. ?r = Inr (m, - 1)) \<longleftrightarrow> ?c = []"
    using zero minus by auto
  show ?thesis
    unfolding Let_def by (rule conjI [OF iff conjI [OF empty full]])
qed

theorem RouterModule_beginSearch_result_witness:
  "NodeStore_getClosestNodes (nodeStore exampleModule) (exampleId 0 0) RETURN_SIZE = [] \<and>
   (\<exists>m. RouterModule_beginSearch find_node (exampleId 0 0) (\<lambda>message. 0) exampleModule = Inr (m, - 1) \<and>
        registry m = [] \<and> eventBase m = []) \<and>
   NodeStore_getClosestNodes
     (nodeStore (RouterModule_addNode (exampleId 0x80 0) (exampleAddress 2) exampleModule))
     (exampleId 0 0) RETURN_SIZE =
     [\<lparr> address = exampleId 0x80 0, networkAddress = exampleAddress 2, reach = 0 \<rparr>] \<and>
   (\<exists>m. RouterModule_beginSearch find_node (exampleId 0 0) (\<lambda>message. 0)
          (RouterModule_addNode (exampleId 0x80 0) (exampleAddress 2) exampleModule) = Inr (m, 0) \<and>
        registry m =
          [DHTMessage
             [(DHTConstants_transactionId, BencString [0, 0, 0, 0]),
              (DHTConstants_messageType, BencString DHTConstants_query),
              (DHTConstants_arguments,
                 BencDict [(DHTConstants_myId, BencString (exampleId 0xFF 0)),
                           (DHTConstants_infoHash, BencString (exampleId 0 0))]),
              (DHTConstants_query, BencString find_node)]
             (exampleAddress 2) None] \<and>
        eventBase m = [\<lparr> timeout_search = 0, timeout_milliseconds = 200 \<rparr>] \<and>
        searchNode_timeOfRequest (searchNodes (searchStore m ! 0) ! 0) = Some 5000)"
  using RouterModule_beginSearch_result
          [of exampleModule "exampleId 0 0" find_node "\<lambda>message. 0"]
        RouterModule_beginSearch_result
          [of "RouterModule_addNode (exampleId 0x80 0) (exampleAddress 2) exampleModule"
              "exampleId 0 0" find_node "\<lambda>message. 0"]
  by (simp add: store_defs router_defs example_defs consts_defs Let_def)

section \<open>Replies to queries\<close>

text \<open>
  For a query with an id and a target of 20 bytes each, \<^verbatim>\<open>handleQuery\<close> records the
  querier and puts the closest nodes under \<^verbatim>\<open>nodes\<close> whenever there is at least one;
  the standing of the querier is not looked at.
\<close>

lemma handleQuery_attaches_nonempty_list:
  assumes "replyTo message = Some query"
    and "benc_lookupString (benc_lookupDictionary (Some (asDict query)) DHTConstants_arguments)
           DHTConstants_myId = Some addr"
    and "length addr = 20"
    and "(case benc_lookupString (benc_lookupDictionary (Some (asDict query)) DHTConstants_arguments)
                 DHTConstants_targetId of
            None \<Rightarrow> benc_lookupString
                      (benc_lookupDictionary (Some (asDict query)) DHTConstants_arguments)
                      DHTConstants_infoHash
          | Some t \<Rightarrow> Some t) = Some t"
    and "length t = 20"
  shows "handleQuery message replyArgs module =
           (let m1 = module \<lparr> nodeStore := NodeStore_addNode (nodeStore module) addr
                                              (take 6 (peerAddress query)) \<rparr>;
                nodeList = NodeStore_getClosestNodes (nodeStore m1) t RouterModule_K
            in Inr (if nodeList = [] then replyArgs
                    else benc_putString replyArgs DHTConstants_nodes (serialiseNodes nodeList),
                    m1, 0))"
  using assms by (simp add: handleQuery_def Let_def)

lemma handleQuery_without_id_or_target:
  assumes "replyTo message = Some query"
    and "(\<forall>addr. benc_lookupString
                   (benc_lookupDictionary (Some (asDict query)) DHTConstants_arguments)
                   DHTConstants_myId = Some addr \<longrightarrow> length addr \<noteq> 20) \<or>
         (\<forall>t. (case benc_lookupString
                       (benc_lookupDictionary (Some (asDict query)) DHTConstants_arguments)
                       DHTConstants_targetId of
                  None \<Rightarrow> benc_lookupString
                            (benc_lookupDictionary (Some (asDict query)) DHTConstants_arguments)
                            DHTConstants_infoHash
                | Some t \<Rightarrow> Some t) = Some t \<longrightarrow> length t \<noteq> 20)"
  shows "\<exists>module'. handleQuery message replyArgs module = Inr (replyArgs, module', 0)"
  using assms by (auto simp: handleQuery_def Let_def split: option.splits)

text \<open>The nodes of a closest-nodes list are nodes of the store, closer to the target than we are.\<close>

lemma set_insertRanked:
  "set (insertRanked target n ms) = insert n (set ms)"
  by (induction ms) auto

lemma set_foldr_insertRanked:
  "set (foldr (insertRanked target) ns []) = set ns"
  by (induction ns) (simp_all add: set_insertRanked)

lemma getClosestNodes_closer:
  assumes "n \<in> set (NodeStore_getClosestNodes store target count)"
  shows "n \<in> set (nodes store) \<and>
         xorDistance (address n) target < xorDistance (thisNodeAddress store) target"
proof -
  from assms have "n \<in> set (foldr (insertRanked target)
                             (filter (closerThanUs store target) (nodes store)) [])"
    unfolding NodeStore_getClosestNodes_def by (rule in_set_takeD)
  then have "n \<in> set (filter (closerThanUs store target) (nodes store))"
    by (simp only: set_foldr_insertRanked)
  then show ?thesis
    by (simp add: closerThanUs_def)
qed

lemma thisNodeAddress_addNode:
  "thisNodeAddress (NodeStore_addNode store addr netAddr) = thisNodeAddress store"
  by (simp add: NodeStore_addNode_def Let_def)

text \<open>
  C2, as the claim states it, fails in its last clause. Our id is FF 00 .. 00, the target
  is zero, and the only node known is the querier itself, id 80 00 .. 00 with reach 5: the
  querier is the closest node of non-zero reach to the target, and the reply carries
  \<^verbatim>\<open>nodes\<close> all the same, holding the record of the querier, which is closer to the
  target than we are. \<^verbatim>\<open>handleQuery\<close> hands the closest-nodes query the target and the
  number of nodes wanted and nothing about the querier, and of the result it asks only
  whether it is empty.
\<close>

theorem handleOutgoing_answers_closest_querier:
  "(case handleOutgoing (exampleAnswer (exampleQuery (exampleId 0x80 0) (exampleId 0 0)))
           (exampleModuleKnowing (exampleId 0x80 0) (exampleAddress 2) 5) of
      Inl e \<Rightarrow> False
    | Inr (message, m, r) \<Rightarrow>
        r = 0 \<and>
        m = exampleModuleKnowing (exampleId 0x80 0) (exampleAddress 2) 5 \<and>
        benc_lookupDictionary (Some (asDict message)) DHTConstants_reply =
          Some [(DHTConstants_myId, BencString (exampleId 0xFF 0)),
                (DHTConstants_nodes, BencString (exampleId 0x80 0 @ exampleAddress 2))]) \<and>
   nodes (nodeStore (exampleModuleKnowing (exampleId 0x80 0) (exampleAddress 2) 5)) =
     [\<lparr> address = exampleId 0x80 0, networkAddress = exampleAddress 2, reach = 5 \<rparr>] \<and>
   NodeStore_getClosestNodes
     (nodeStore (exampleModuleKnowing (exampleId 0x80 0) (exampleAddress 2) 5)) (exampleId 0 0)
     RouterModule_K =
     [\<lparr> address = exampleId 0x80 0, networkAddress = exampleAddress 2, reach = 5 \<rparr>] \<and>
   xorDistance (exampleId 0x80 0) (exampleId 0 0) < xorDistance (exampleId 0xFF 0) (exampleId 0 0)"
  by (simp add: handleOutgoing_def handleQuery_def serialiseNodes_def store_defs router_defs
      example_defs consts_defs Let_def)

text \<open>
  C2, amended. Let the node store carry our own id. For every reply of ours to a query,
  \<^verbatim>\<open>handleQuery\<close> returns 0, and either it leaves the reply arguments as they were, or
  it puts under \<^verbatim>\<open>nodes\<close> the records of 26 bytes (the first 20 bytes of the id, then
  the first 6 of the network address) of the closest-nodes list for the target of the
  query (\<^verbatim>\<open>target\<close> or, without it, \<^verbatim>\<open>info_hash\<close>, of 20 bytes), taken from the node
  store after the querier has been recorded; that list is then not empty, and every node
  in it is strictly closer to the target by XOR distance than our own id. When the query
  has an id of 20 bytes and a target of 20 bytes, \<^verbatim>\<open>nodes\<close> is put exactly when that list
  is not empty, whoever the querier is.
\<close>

theorem handleQuery_returns_only_closer_nodes:
  assumes "replyTo message = Some query"
    and "thisNodeAddress (nodeStore module) = myAddress module"
  shows "(\<exists>args' module'.
            handleQuery message replyArgs module = Inr (args', module', 0) \<and>
            (args' = replyArgs \<or>
             (\<exists>addr t nodeList.
                benc_lookupString
                  (benc_lookupDictionary (Some (asDict query)) DHTConstants_arguments)
                  DHTConstants_myId = Some addr \<and>
                length addr = 20 \<and>
                (case benc_lookupString
                        (benc_lookupDictionary (Some (asDict query)) DHTConstants_arguments)
                        DHTConstants_targetId of
                   None \<Rightarrow> benc_lookupString
                             (benc_lookupDictionary (Some (asDict query)) DHTConstants_arguments)
                             DHTConstants_infoHash
                 | Some t \<Rightarrow> Some t) = Some t \<and>
                length t = 20 \<and>
                module' = module \<lparr> nodeStore := NodeStore_addNode (nodeStore module) addr
                                                   (take 6 (peerAddress query)) \<rparr> \<and>
                nodeList = NodeStore_getClosestNodes (nodeStore module') t RouterModule_K \<and>
                nodeList \<noteq> [] \<and>
                args' = benc_putString replyArgs DHTConstants_nodes (serialiseNodes nodeList) \<and>
                (\<forall>n \<in> set nodeList.
                   xorDistance (address n) t < xorDistance (myAddress module) t)))) \<and>
         (\<forall>addr t.
            benc_lookupString (benc_lookupDictionary (Some (asDict query)) DHTConstants_arguments)
              DHTConstants_myId = Some addr \<and>
            length addr = 20 \<and>
            (case benc_lookupString
                    (benc_lookupDictionary (Some (asDict query)) DHTConstants_arguments)
                    DHTConstants_targetId of
               None \<Rightarrow> benc_lookupString
                         (benc_lookupDictionary (Some (asDict query)) DHTConstants_arguments)
                         DHTConstants_infoHash
             | Some t \<Rightarrow> Some t) = Some t \<and>
            length t = 20 \<longrightarrow>
            (let m1 = module \<lparr> nodeStore := NodeStore_addNode (nodeStore module) addr
                                               (take 6 (peerAddress query)) \<rparr>;
                 nodeList = NodeStore_getClosestNodes (nodeStore m1) t RouterModule_K
             in handleQuery message replyArgs module =
                  Inr (if nodeList = [] then replyArgs
                       else benc_putString replyArgs DHTConstants_nodes (serialiseNodes nodeList),
                       m1, 0)))"
proof (rule conjI)
  let ?args = "benc_lookupDictionary (Some (asDict query)) DHTConstants_arguments"
  let ?target = "case benc_lookupString ?args DHTConstants_targetId of
                   None \<Rightarrow> benc_lookupString ?args DHTConstants_infoHash
                 | Some t \<Rightarrow> Some t"
  let ?P = "\<lambda>args' module'.
            handleQuery message replyArgs module = Inr (args', module', 0) \<and>
            (args' = replyArgs \<or>
             (\<exists>addr t nodeList.
                benc_lookupString ?args DHTConstants_myId = Some addr \<and>
                length addr = 20 \<and>
                ?target = Some t \<and>
                length t = 20 \<and>
                module' = module \<lparr> nodeStore := NodeStore_addNode (nodeStore module) addr
                                                   (take 6 (peerAddress query)) \<rparr> \<and>
                nodeList = NodeStore_getClosestNodes (nodeStore module') t RouterModule_K \<and>
                nodeList \<noteq> [] \<and>
                args' = benc_putString replyArgs DHTConstants_nodes (serialiseNodes nodeList) \<and>
                (\<forall>n \<in> set nodeList.
                   xorDistance (address n) t < xorDistance (myAddress module) t)))"
  show "\<exists>args' module'. ?P args' module'"
  proof (cases "\<exists>addr t. benc_lookupString ?args DHTConstants_myId = Some addr \<and>
                  length addr = 20 \<and> ?target = Some t \<and> length t = 20")
    case False
    then have "(\<forall>addr. benc_lookupString ?args DHTConstants_myId = Some addr \<longrightarrow> length addr \<noteq> 20) \<or>
               (\<forall>t. ?target = Some t \<longrightarrow> length t \<noteq> 20)"
      by blast
    from handleQuery_without_id_or_target [OF assms(1) this, of replyArgs module]
    obtain module' where "handleQuery message replyArgs module = Inr (replyArgs, module', 0)"
      by (rule exE)
    then have "?P replyArgs module'" by simp
    then show ?thesis by (intro exI)
  next
    case True
    then obtain addr t where
      a: "benc_lookupString ?args DHTConstants_myId = Some addr" and la: "length addr = 20" and
      t: "?target = Some t" and lt: "length t = 20"
      by blast
    let ?m1 = "module \<lparr> nodeStore := NodeStore_addNode (nodeStore module) addr
                                       (take 6 (peerAddress query)) \<rparr>"
    let ?list = "NodeStore_getClosestNodes (nodeStore ?m1) t RouterModule_K"
    have r: "handleQuery message replyArgs module =
               Inr (if ?list = [] then replyArgs
                    else benc_putString replyArgs DHTConstants_nodes (serialiseNodes ?list),
                    ?m1, 0)"
      using handleQuery_attaches_nonempty_list [OF assms(1) a la t lt, of replyArgs module]
      by (simp add: Let_def)
    have own: "thisNodeAddress (nodeStore ?m1) = myAddress module"
      using assms(2) by (simp add: thisNodeAddress_addNode)
    have closer: "\<forall>n \<in> set ?list. xorDistance (address n) t < xorDistance (myAddress module) t"
      using getClosestNodes_closer [of _ "nodeStore ?m1" t RouterModule_K] own by auto
    show ?thesis
    proof (cases "?list = []")
      case True
      with r have "?P replyArgs ?m1" by simp
      then show ?thesis by (intro exI)
    next
      case False
      with r a la t lt closer
      have "?P (benc_putString replyArgs DHTConstants_nodes (serialiseNodes ?list)) ?m1"
        by (intro conjI disjI2 exI [of _ addr] exI [of _ t] exI [of _ ?list]) simp_all
      then show ?thesis by (intro exI)
    qed
  qed
next
  show "\<forall>addr t.
            benc_lookupString (benc_lookupDictionary (Some (asDict query)) DHTConstants_arguments)
              DHTConstants_myId = Some addr \<and>
            length addr = 20 \<and>
            (case benc_lookupString
                    (benc_lookupDictionary (Some (asDict query)) DHTConstants_arguments)
                    DHTConstants_targetId of
               None \<Rightarrow> benc_lookupString
                         (benc_lookupDictionary (Some (asDict query)) DHTConstants_arguments)
                         DHTConstants_infoHash
             | Some t \<Rightarrow> Some t) = Some t \<and>
            length t = 20 \<longrightarrow>
            (let m1 = module \<lparr> nodeStore := NodeStore_addNode (nodeStore module) addr
                                               (take 6 (peerAddress query)) \<rparr>;
                 nodeList = NodeStore_getClosestNodes (nodeStore m1) t RouterModule_K
             in handleQuery message replyArgs module =
                  Inr (if nodeList = [] then replyArgs
                       else benc_putString replyArgs DHTConstants_nodes (serialiseNodes nodeList),
                       m1, 0))"
    using handleQuery_attaches_nonempty_list [OF assms(1), of _ _ replyArgs module]
    by (simp add: Let_def)
qed

theorem handleQuery_returns_only_closer_nodes_witness:
  "thisNodeAddress (nodeStore (exampleModuleKnowing (exampleId 0x40 0) (exampleAddress 3) 5)) =
     myAddress (exampleModuleKnowing (exampleId 0x40 0) (exampleAddress 3) 5) \<and>
   handleQuery (exampleAnswer (exampleQuery (exampleId 0x80 0) (exampleId 0 0))) []
     (exampleModuleKnowing (exampleId 0x40 0) (exampleAddress 3) 5) =
     Inr ([(DHTConstants_nodes,
            BencString (exampleId 0x40 0 @ exampleAddress 3 @ exampleId 0x80 0 @ exampleAddress 2))],
          exampleModule \<lparr> nodeStore := (nodeStore exampleModule)
            \<lparr> nodes := [\<lparr> address = exampleId 0x40 0, networkAddress = exampleAddress 3,
                           reach = 5 \<rparr>,
                         \<lparr> address = exampleId 0x80 0, networkAddress = exampleAddress 2,
                           reach = 0 \<rparr>] \<rparr> \<rparr>,
          0) \<and>
   xorDistance (exampleId 0x40 0) (exampleId 0 0) < xorDistance (exampleId 0xFF 0) (exampleId 0 0) \<and>
   xorDistance (exampleId 0x80 0) (exampleId 0 0) < xorDistance (exampleId 0xFF 0) (exampleId 0 0) \<and>
   thisNodeAddress (nodeStore exampleModule) = myAddress exampleModule \<and>
   handleQuery (exampleAnswer (exampleQuery (exampleId 0xFF 1) (exampleId 0 0))) [] exampleModule =
     Inr ([],
          exampleModule \<lparr> nodeStore := (nodeStore exampleModule)
            \<lparr> nodes := [\<lparr> address = exampleId 0xFF 1, networkAddress = exampleAddress 2,
                           reach = 0 \<rparr>] \<rparr> \<rparr>,
          0) \<and>
   NodeStore_getClosestNodes
     (nodeStore (RouterModule_addNode (exampleId 0xFF 1) (exampleAddress 2) exampleModule))
     (exampleId 0 0) RouterModule_K = []"
proof -
  have first: "replyTo (exampleAnswer (exampleQuery (exampleId 0x80 0) (exampleId 0 0))) =
                 Some (exampleQuery (exampleId 0x80 0) (exampleId 0 0))"
    by (simp add: exampleAnswer_def)
  have second: "replyTo (exampleAnswer (exampleQuery (exampleId 0xFF 1) (exampleId 0 0))) =
                  Some (exampleQuery (exampleId 0xFF 1) (exampleId 0 0))"
    by (simp add: exampleAnswer_def)
  have own: "thisNodeAddress (nodeStore (exampleModuleKnowing (exampleId 0x40 0) (exampleAddress 3) 5)) =
               myAddress (exampleModuleKnowing (exampleId 0x40 0) (exampleAddress 3) 5)"
       "thisNodeAddress (nodeStore exampleModule) = myAddress exampleModule"
    by (simp_all add: store_defs router_defs example_defs)
  from handleQuery_returns_only_closer_nodes [OF first own(1), of "[]", THEN conjunct1]
       handleQuery_returns_only_closer_nodes
         [OF second own(2), of "[]", THEN conjunct2, rule_format,
          of "exampleId 0xFF 1" "exampleId 0 0"]
  show ?thesis
    by (simp add: handleQuery_def serialiseNodes_def store_defs router_defs example_defs
        consts_defs Let_def)
qed

section \<open>Reach attribution at the end of a search\<close>

text \<open>
  C1. The claim has the walk start at the node added for the target, so that the last
  peer that replied is the first parent to be credited. \<^verbatim>\<open>cleanup\<close> adds that node
  under the last replier but takes the trace from the last replier itself. When the seed
  80 00 .. 00 answers and the callback stops the search, the trace is that seed alone and
  the loop has no pair to run over: whatever the statements of its body are, the node
  store is unchanged and the seed keeps its reach of 7. When the seed answers with the
  node 40 00 .. 00, which answers next, and the callback stops then, the only pair visited
  is the seed with that node as its child, as the probe in the reach of the seed shows;
  the node 40 00 .. 00, parent of the node added for the target, is never a parent in the
  loop and its reach stays 0.
\<close>

theorem cleanup_walks_from_last_replier:
  "(case RouterModule_beginSearch find_node (exampleId 0 0) (\<lambda>message. 1)
           (exampleModuleKnowing (exampleId 0x80 0) (exampleAddress 2) 7) of
      Inl e \<Rightarrow> False
    | Inr (m, r) \<Rightarrow>
        (case handleIncoming body
                (exampleReply [0, 0, 0, 0]
                   [(DHTConstants_myId, BencString (exampleId 0x80 0)),
                    (DHTConstants_nodes, BencString [])]) m of
           Inl e \<Rightarrow> False
         | Inr (m', r') \<Rightarrow>
             r' = 0 \<and>
             map (\<lambda>n. (searchNode_address n, searchNode_parent n)) (searchNodes (searchStore m' ! 0)) =
               [(exampleId 0x80 0, None), (exampleId 0 0, Some 0)] \<and>
             SearchStore_backTrace (0, 0) (searchStore m') =
               [\<lparr> trace_address = exampleId 0x80 0, trace_delayUntilReply = 0 \<rparr>] \<and>
             nodeStore m' = nodeStore m \<and>
             NodeStore_getNode (nodeStore m') (exampleId 0x80 0) =
               Some \<lparr> address = exampleId 0x80 0, networkAddress = exampleAddress 2, reach = 7 \<rparr>)) \<and>
   (case RouterModule_beginSearch find_node (exampleId 0 0) stopOnSecondReply
           (exampleModuleKnowing (exampleId 0x80 0) (exampleAddress 2) 7) of
      Inl e \<Rightarrow> False
    | Inr (m1, r1) \<Rightarrow>
        (case handleIncoming probeReachUpdate
                (exampleReply [0, 0, 0, 0]
                   [(DHTConstants_myId, BencString (exampleId 0x80 0)),
                    (DHTConstants_nodes, BencString (exampleId 0x40 0 @ exampleAddress 3))]) m1 of
           Inl e \<Rightarrow> False
         | Inr (m2, r2) \<Rightarrow>
             (case handleIncoming probeReachUpdate
                     (exampleReply [0, 0, 0, 1]
                        [(DHTConstants_myId, BencString (exampleId 0x40 0)),
                         (DHTConstants_nodes, BencString [])]) m2 of
                Inl e \<Rightarrow> False
              | Inr (m3, r3) \<Rightarrow>
                  r3 = 0 \<and>
                  map (\<lambda>n. (searchNode_address n, searchNode_parent n))
                    (searchNodes (searchStore m3 ! 0)) =
                    [(exampleId 0x80 0, None), (exampleId 0x40 0, Some 0), (exampleId 0 0, Some 1)] \<and>
                  map (\<lambda>n. (address n, reach n)) (nodes (nodeStore m3)) =
                    [(exampleId 0x80 0, 0x40000000), (exampleId 0x40 0, 0)])))"
  by (simp add: RouterModule_beginSearch_def handleIncoming_def handleReply_def cleanup_def
      searchStep_def addReplyNodes.simps traceFrom.simps
      store_defs router_defs example_defs consts_defs Let_def split_def)

end
